theory Spec2Isabelle
  imports Main
begin

section \<open>Python values shared by the three scripts\<close>

text \<open>
  Exceptions are values. The scripts distinguish three layers of Python's exception
  hierarchy: \<open>except OSError\<close> (the connection loop), \<open>except SlackApiError\<close>
  (the Superset script) and \<open>except Exception\<close> (the job boundary). \<open>OSError\<close>
  stands for the class and its subclasses (refused connection, timeout, name
  resolution), \<open>PyException\<close> for every other subclass of \<open>Exception\<close>, and
  \<open>BaseOnly\<close> for a \<open>BaseException\<close> that is not an \<open>Exception\<close>
  (\<open>KeyboardInterrupt\<close>, \<open>SystemExit\<close>). The string is the message.
\<close>

datatype exn =
    OSError string
  | SlackApiError string
  | PyException string
  | BaseOnly string

fun is_OSError :: "exn \<Rightarrow> bool" where
  "is_OSError (OSError m) = True"
| "is_OSError e = False"

fun is_SlackApiError :: "exn \<Rightarrow> bool" where
  "is_SlackApiError (SlackApiError m) = True"
| "is_SlackApiError e = False"

fun is_Exception :: "exn \<Rightarrow> bool" where
  "is_Exception (BaseOnly m) = False"
| "is_Exception e = True"

text \<open>A call either returns a value or raises.\<close>

datatype 'a res = Return 'a | Raise exn

text \<open>
  A Python \<open>float\<close> is an IEEE double: not a number, an infinity with its sign, or a
  finite value \<open>\<plusminus> m \<sqdot> 2\<^sup>e\<close> (\<open>Finite neg m e\<close>, negative when \<open>neg\<close>;
  \<open>Finite True 0 0\<close> is \<open>-0.0\<close>).
\<close>

datatype pyfloat = Finite bool nat int | Inf bool | NaN

subsection \<open>Timestamps\<close>

text \<open>
  \<open>datetime.weekday()\<close> numbers the days from Monday = 0 to Sunday = 6; \<open>hour\<close> is
  the hour of the day in the timestamp's own timezone (the scripts always build it with
  \<open>datetime.now(TZ)\<close>, \<open>TZ = America/Fortaleza\<close>).
\<close>

datatype day = Monday | Tuesday | Wednesday | Thursday | Friday | Saturday | Sunday

fun weekday_number :: "day \<Rightarrow> nat" where
  "weekday_number Monday = 0"
| "weekday_number Tuesday = 1"
| "weekday_number Wednesday = 2"
| "weekday_number Thursday = 3"
| "weekday_number Friday = 4"
| "weekday_number Saturday = 5"
| "weekday_number Sunday = 6"

record datetime =
  dow :: day
  hour :: nat

definition weekday :: "datetime \<Rightarrow> nat" where
  "weekday agora = weekday_number (dow agora)"

section \<open>bot\_monitoramento.py and bot\_resumo\_diario.py: the scheduled jobs\<close>

subsection \<open>The execution window\<close>

text \<open>
  \<^verbatim>\<open>
  def dentro_da_janela_execucao(agora: datetime) -> bool:
      if agora.weekday() == 6:  # domingo
          return False
      return 6 <= agora.hour < 20
  \<close>
\<close>

definition dentro_da_janela_execucao :: "datetime \<Rightarrow> bool" where
  "dentro_da_janela_execucao agora =
     (if weekday agora = 6 then False else 6 \<le> hour agora \<and> hour agora < 20)"

subsection \<open>Traces\<close>

text \<open>
  What the scripts print and do to the outside world is recorded as a trace of events,
  in the order of the calls. The text of each message is abstracted to its kind and the
  values the claims refer to.
\<close>

datatype sql = SQL_NOVO | SQL_REFIN | SQL_PORTABILITY | SQL_RESUMO

datatype log =
    Verificando string nat
  | Acessivel
  | Inacessivel
  | SlackErro
  | Fora string
  | Iniciando string
  | Enviado string
  | Erro string exn
  | Autenticando
  | Buscando
  | Processando
  | Enviando
  | Concluido
  | SdkErro

datatype body = SemRegistros | Linhas "string list"

datatype mensagem = NenhumDado | TotalRegistros nat

datatype json =
    JNull
  | JBool bool
  | JInt int
  | JFloat pyfloat
  | JStr string
  | JList "json list"
  | JDict "(string \<times> json) list"

datatype event =
    Print log
  | Connect string nat
  | Sleep nat
  | CreateEngine
  | Begin
  | ReadSql sql
  | Release
  | Dispose
  | Post string string body
  | HttpLogin
  | HttpChart json int
  | SdkPost mensagem

subsection \<open>The database reachability loop\<close>

text \<open>
  One call of \<open>socket.create_connection((host, port), timeout=5)\<close> either connects
  or raises. An attempt counts as unreachable when it raises an \<open>OSError\<close>, the one
  class the loop catches; \<open>unreachable_upto sk n\<close> says so of the first \<open>n\<close>
  attempts.
\<close>

datatype conn = Connected | ConnFails exn

fun unreachable :: "conn \<Rightarrow> bool" where
  "unreachable Connected = False"
| "unreachable (ConnFails e) = is_OSError e"

primrec unreachable_upto :: "(nat \<Rightarrow> conn) \<Rightarrow> nat \<Rightarrow> bool" where
  "unreachable_upto sk 0 = True"
| "unreachable_upto sk (Suc n) = (unreachable_upto sk n \<and> unreachable (sk n))"

text \<open>
  \<^verbatim>\<open>
  def wait_for_vpn_and_db(host: str, port: int = 5432, interval: int = 900):
      print(f"[BOOT] Verificando acesso ao DB ({host}:{port})...")
      while True:
          try:
              with socket.create_connection((host, port), timeout=5):
                  print("[BOOT] Banco/VPN acessivel. Seguindo execucao.")
                  return
          except OSError:
              agora = datetime.now(TZ).strftime("%d/%m/%Y %H:%M:%S")
              print(f"[{agora}] Banco ainda inacessivel (VPN desligada?). ...")
              time.sleep(interval)
  \<close>
  The function is the same in bot\_monitoramento.py and bot\_resumo\_diario.py (the
  second prints \<open>[BOOT RESUMO]\<close>). \<open>sk i\<close> is what the \<open>i\<close>-th connection attempt
  of the call does. The loop has no bound, so it is a partial function: \<open>None\<close> is the
  call that never returns. An exception that is not an \<open>OSError\<close> leaves the loop.
\<close>

partial_function (option) wait_loop ::
  "(nat \<Rightarrow> conn) \<Rightarrow> string \<Rightarrow> nat \<Rightarrow> nat \<Rightarrow> nat \<Rightarrow> event list \<Rightarrow> (unit res \<times> event list) option"
where
  "wait_loop sk host port interval i tr =
     (case sk i of
        Connected \<Rightarrow> Some (Return (), tr @ [Connect host port, Print Acessivel])
      | ConnFails e \<Rightarrow>
          if is_OSError e
          then wait_loop sk host port interval (Suc i)
                 (tr @ [Connect host port, Print Inacessivel, Sleep interval])
          else Some (Raise e, tr @ [Connect host port]))"

subsection \<open>The outside world of one job run\<close>

text \<open>
  A DataFrame is the list of its rows. A row is represented by what formatting its line
  of the message does: the text of the line, or the exception that \<open>int()\<close> or
  \<open>float()\<close> raises on one of its cells.
\<close>

type_synonym dataframe = "string res list"

text \<open>
  \<open>json\<close> is the parsed body of an HTTP response (an object is the list of its
  members, each key once). The Python operations the scripts apply to it: truth value
  and \<open>.get(key, default)\<close>, which only a \<open>dict\<close> has.
\<close>

fun truthy :: "json \<Rightarrow> bool" where
  "truthy JNull = False"
| "truthy (JBool b) = b"
| "truthy (JInt n) = (n \<noteq> 0)"
| "truthy (JFloat (Finite neg m e)) = (m \<noteq> 0)"
| "truthy (JFloat f) = True"
| "truthy (JStr s) = (s \<noteq> [])"
| "truthy (JList xs) = (xs \<noteq> [])"
| "truthy (JDict kvs) = (kvs \<noteq> [])"

fun dict_get :: "json \<Rightarrow> string \<Rightarrow> json \<Rightarrow> json res" where
  "dict_get (JDict kvs) k d = Return (case map_of kvs k of Some v \<Rightarrow> v | None \<Rightarrow> d)"
| "dict_get j k d = Raise (PyException ''AttributeError'')"

text \<open>
  \<open>resp_ok\<close> is \<open>r.ok\<close> (the status is below 400, so \<open>raise_for_status()\<close> does
  not raise); \<open>resp_json\<close> is what \<open>r.json()\<close> does.
\<close>

record response =
  resp_ok :: bool
  resp_json :: "json res"

text \<open>
  The world of one run. \<open>sock i\<close> is the \<open>i\<close>-th connection attempt, which always
  comes back (it has a timeout of 5 seconds), as does the post to Slack (20 seconds).
  \<open>engine.begin()\<close> and \<open>pd.read_sql\<close> are called with no timeout: \<open>None\<close> is the
  call that never comes back.
\<close>

record world =
  db_host :: string
  db_port :: nat
  sock :: "nat \<Rightarrow> conn"
  engine_begin :: "unit res option"
  read_sql :: "sql \<Rightarrow> dataframe res option"
  slack_post :: "response res"

text \<open>
  The sink rejects the payload: the HTTP status is an error, or the body is a JSON
  object whose \<open>ok\<close> is missing or false.
\<close>

definition rejected :: "response \<Rightarrow> bool" where
  "rejected r =
     (\<not> resp_ok r \<or>
      (case resp_json r of
         Raise e \<Rightarrow> False
       | Return j \<Rightarrow>
           (case dict_get j ''ok'' JNull of Raise e \<Rightarrow> False | Return v \<Rightarrow> \<not> truthy v)))"

definition wait_for_vpn_and_db ::
  "world \<Rightarrow> string \<Rightarrow> nat \<Rightarrow> nat \<Rightarrow> (unit res \<times> event list) option" where
  "wait_for_vpn_and_db w host port interval =
     wait_loop (sock w) host port interval 0 [Print (Verificando host port)]"

subsection \<open>Fetching\<close>

text \<open>
  \<^verbatim>\<open>
  def run_query(sql: str) -> pd.DataFrame:
      wait_for_vpn_and_db(DB_CFG["host"], DB_CFG["port"])
      url = URL.create(...)
      engine = create_engine(url, pool_pre_ping=True)
      with engine.begin() as conn:
          df = pd.read_sql(text(sql), conn)
      engine.dispose()
      return df
  \<close>
  \<open>Begin\<close> is the call of \<open>engine.begin()\<close>, which opens the connection and may
  raise (\<open>engine_begin\<close>); \<open>Release\<close> is the exit of the \<open>with\<close> block, which runs
  whether the body raised or not; \<open>Dispose\<close> is \<open>engine.dispose()\<close>, a plain
  statement after the block. The call does not return while the wait goes on, nor
  when \<open>engine.begin()\<close> or \<open>pd.read_sql\<close> blocks.
\<close>

definition run_query :: "world \<Rightarrow> sql \<Rightarrow> (dataframe res \<times> event list) option" where
  "run_query w q =
     (case wait_for_vpn_and_db w (db_host w) (db_port w) 900 of
        None \<Rightarrow> None
      | Some (Raise e, tr) \<Rightarrow> Some (Raise e, tr)
      | Some (Return u, tr) \<Rightarrow>
          (case engine_begin w of
             None \<Rightarrow> None
           | Some (Raise e) \<Rightarrow> Some (Raise e, tr @ [CreateEngine, Begin])
           | Some (Return conn) \<Rightarrow>
               (case read_sql w q of
                  None \<Rightarrow> None
                | Some (Raise e) \<Rightarrow>
                    Some (Raise e, tr @ [CreateEngine, Begin, ReadSql q, Release])
                | Some (Return df) \<Rightarrow>
                    Some (Return df, tr @ [CreateEngine, Begin, ReadSql q, Release, Dispose]))))"

subsection \<open>Delivering\<close>

text \<open>The list comprehension over the rows stops at the first row that raises.\<close>

fun format_rows :: "dataframe \<Rightarrow> string list res" where
  "format_rows [] = Return []"
| "format_rows (Raise e # rs) = Raise e"
| "format_rows (Return l # rs) =
     (case format_rows rs of Raise e \<Rightarrow> Raise e | Return ls \<Rightarrow> Return (l # ls))"

definition message_body :: "dataframe \<Rightarrow> body res" where
  "message_body df =
     (if df = [] then Return SemRegistros
      else case format_rows df of Raise e \<Rightarrow> Raise e | Return ls \<Rightarrow> Return (Linhas ls))"

text \<open>
  \<^verbatim>\<open>
      r = requests.post("https://slack.com/api/chat.postMessage", ..., timeout=20)
      if not r.ok or not r.json().get("ok"):
          print("Erro ao enviar mensagem para o Slack (esteiras):", r.text)
  \<close>
  The same lines end \<open>post_to_slack\<close> and \<open>send_resumo_to_slack\<close>. \<open>or\<close> does not
  evaluate \<open>r.json()\<close> when \<open>r.ok\<close> is false.
\<close>

definition post_chat_message :: "world \<Rightarrow> string \<Rightarrow> string \<Rightarrow> body \<Rightarrow> unit res \<times> event list" where
  "post_chat_message w channel title b =
     (case slack_post w of
        Raise e \<Rightarrow> (Raise e, [Post channel title b])
      | Return r \<Rightarrow>
          if \<not> resp_ok r then (Return (), [Post channel title b, Print SlackErro])
          else
            (case resp_json r of
               Raise e \<Rightarrow> (Raise e, [Post channel title b])
             | Return j \<Rightarrow>
                 (case dict_get j ''ok'' JNull of
                    Raise e \<Rightarrow> (Raise e, [Post channel title b])
                  | Return v \<Rightarrow>
                      if \<not> truthy v then (Return (), [Post channel title b, Print SlackErro])
                      else (Return (), [Post channel title b]))))"

text \<open>
  \<open>post_to_slack(df, produto_label)\<close> of bot\_monitoramento.py builds the text
  (\<open>"_Sem registros para o dia atual._"\<close> for an empty frame, one line per row
  otherwise) and posts it to \<open>#monitoramento-privado\<close>.
\<close>

definition post_to_slack :: "world \<Rightarrow> dataframe \<Rightarrow> string \<Rightarrow> unit res \<times> event list" where
  "post_to_slack w df produto_label =
     (case message_body df of
        Raise e \<Rightarrow> (Raise e, [])
      | Return b \<Rightarrow> post_chat_message w ''#monitoramento-privado'' produto_label b)"

text \<open>
  \<open>send_resumo_to_slack(df)\<close> of bot\_resumo\_diario.py does the same with one block
  per row, to \<open>#geral-ops-privado\<close>.
\<close>

definition send_resumo_to_slack :: "world \<Rightarrow> dataframe \<Rightarrow> unit res \<times> event list" where
  "send_resumo_to_slack w df =
     (case message_body df of
        Raise e \<Rightarrow> (Raise e, [])
      | Return b \<Rightarrow> post_chat_message w ''#geral-ops-privado'' ''Resumo Diario Privado'' b)"

subsection \<open>The jobs\<close>

text \<open>
  \<^verbatim>\<open>
  def job_novo():
      agora = datetime.now(TZ)
      if not dentro_da_janela_execucao(agora):
          print(f"[{agora}] [NOVO] Fora da janela. Aguardando proxima execucao.")
          return
      try:
          print(f"[{agora}] [NOVO] Iniciando...")
          df = run_query(SQL_NOVO)
          post_to_slack(df, "Produto NOVO (Consignado Privado)")
          print(f"[{agora}] [NOVO] Enviado com sucesso!")
      except Exception as e:
          print(f"[{agora}] [NOVO] Erro: {e}")
  \<close>
  \<open>job_refin\<close> and \<open>job_portability\<close> are copies with their own tag, query and
  label, so the three share one body here. \<open>agora\<close> is the clock reading the job takes
  first. \<open>except_Exception\<close> is the handler: it catches what is an \<open>Exception\<close> and
  lets anything else pass.
\<close>

definition except_Exception :: "string \<Rightarrow> exn \<Rightarrow> event list \<Rightarrow> unit res \<times> event list" where
  "except_Exception tag e tr =
     (if is_Exception e then (Return (), tr @ [Print (Erro tag e)]) else (Raise e, tr))"

definition job_esteira ::
  "string \<Rightarrow> sql \<Rightarrow> string \<Rightarrow> world \<Rightarrow> datetime \<Rightarrow> (unit res \<times> event list) option" where
  "job_esteira tag q produto_label w agora =
     (if \<not> dentro_da_janela_execucao agora then Some (Return (), [Print (Fora tag)])
      else
        (case run_query w q of
           None \<Rightarrow> None
         | Some (Raise e, tr) \<Rightarrow> Some (except_Exception tag e (Print (Iniciando tag) # tr))
         | Some (Return df, tr) \<Rightarrow>
             (case post_to_slack w df produto_label of
                (Raise e, tr') \<Rightarrow>
                  Some (except_Exception tag e (Print (Iniciando tag) # tr @ tr'))
              | (Return u, tr') \<Rightarrow>
                  Some (Return (), Print (Iniciando tag) # tr @ tr' @ [Print (Enviado tag)]))))"

definition job_novo :: "world \<Rightarrow> datetime \<Rightarrow> (unit res \<times> event list) option" where
  "job_novo = job_esteira ''NOVO'' SQL_NOVO ''Produto NOVO (Consignado Privado)''"

definition job_refin :: "world \<Rightarrow> datetime \<Rightarrow> (unit res \<times> event list) option" where
  "job_refin = job_esteira ''REFIN'' SQL_REFIN ''Produto REFIN (Consignado Privado)''"

definition job_portability :: "world \<Rightarrow> datetime \<Rightarrow> (unit res \<times> event list) option" where
  "job_portability =
     job_esteira ''PORTABILITY'' SQL_PORTABILITY ''Produto PORTABILITY (Consignado Privado)''"

text \<open>
  \<^verbatim>\<open>
  def job_resumo():
      agora = datetime.now(TZ)
      print(f"[{agora}] [RESUMO] Iniciando resumo diario...")
      try:
          df = run_query(SQL_RESUMO)
          send_resumo_to_slack(df)
          print(f"[{agora}] [RESUMO] Mensagem enviada com sucesso!")
      except Exception as e:
          print(f"[{agora}] [RESUMO] Erro: {e}")
  \<close>
  The daily summary has no execution window.
\<close>

definition job_resumo :: "world \<Rightarrow> datetime \<Rightarrow> (unit res \<times> event list) option" where
  "job_resumo w agora =
     (case run_query w SQL_RESUMO of
        None \<Rightarrow> None
      | Some (Raise e, tr) \<Rightarrow>
          Some (except_Exception ''RESUMO'' e (Print (Iniciando ''RESUMO'') # tr))
      | Some (Return df, tr) \<Rightarrow>
          (case send_resumo_to_slack w df of
             (Raise e, tr') \<Rightarrow>
               Some (except_Exception ''RESUMO'' e (Print (Iniciando ''RESUMO'') # tr @ tr'))
           | (Return u, tr') \<Rightarrow>
               Some (Return (),
                     Print (Iniciando ''RESUMO'') # tr @ tr' @ [Print (Enviado ''RESUMO'')])))"

text \<open>
  The jobs return nothing: the outcome of a run is the last line it prints, which names
  one of three results.
\<close>

datatype JobOutcome = Skipped string | Succeeded | Failed exn

fun outcome_of_log :: "log \<Rightarrow> JobOutcome option" where
  "outcome_of_log (Fora tag) = Some (Skipped ''outside window'')"
| "outcome_of_log (Enviado tag) = Some Succeeded"
| "outcome_of_log (Erro tag e) = Some (Failed e)"
| "outcome_of_log l = None"

fun outcome :: "event list \<Rightarrow> JobOutcome option" where
  "outcome [] = None"
| "outcome [Print l] = outcome_of_log l"
| "outcome [ev] = None"
| "outcome (ev # evs) = outcome evs"

fun is_Post :: "event \<Rightarrow> bool" where
  "is_Post (Post c t b) = True"
| "is_Post ev = False"

definition deliveries :: "event list \<Rightarrow> nat" where
  "deliveries tr = length (filter is_Post tr)"

definition retries :: "string \<Rightarrow> nat \<Rightarrow> nat \<Rightarrow> nat \<Rightarrow> event list" where
  \<comment> \<open>the events of \<open>n\<close> failed passes through the loop of \<open>wait_for_vpn_and_db\<close>\<close>
  "retries host port interval n =
     concat (replicate n [Connect host port, Print Inacessivel, Sleep interval])"

definition scheduled_jobs :: "(world \<Rightarrow> datetime \<Rightarrow> (unit res \<times> event list) option) list" where
  \<comment> \<open>the functions the two bots hand to \<open>schedule...do(...)\<close>\<close>
  "scheduled_jobs = [job_novo, job_refin, job_portability, job_resumo]"

text \<open>
  Conditions on the world of a run, for the statements about the job boundary: the
  reachability wait is answered at attempt \<open>n\<close> (the first attempt that does not
  fail with an \<open>OSError\<close>); the two database calls come back; a database call blocks;
  and everything the world raises is an \<open>Exception\<close> (no \<open>KeyboardInterrupt\<close>, no
  \<open>SystemExit\<close>).
\<close>

definition answered :: "world \<Rightarrow> nat \<Rightarrow> bool" where
  "answered w n = (unreachable_upto (sock w) n \<and> \<not> unreachable (sock w n))"

definition db_answers :: "world \<Rightarrow> bool" where
  "db_answers w = (engine_begin w \<noteq> None \<and> (\<forall>q. read_sql w q \<noteq> None))"

definition db_blocks :: "world \<Rightarrow> bool" where
  "db_blocks w =
     (engine_begin w = None \<or>
      (engine_begin w = Some (Return ()) \<and> (\<forall>q. read_sql w q = None)))"

definition only_Exceptions :: "world \<Rightarrow> bool" where
  "only_Exceptions w =
     ((\<forall>i e. sock w i = ConnFails e \<longrightarrow> is_Exception e) \<and>
      (\<forall>e. engine_begin w = Some (Raise e) \<longrightarrow> is_Exception e) \<and>
      (\<forall>q e. read_sql w q = Some (Raise e) \<longrightarrow> is_Exception e) \<and>
      (\<forall>q df e. read_sql w q = Some (Return df) \<and> Raise e \<in> set df \<longrightarrow> is_Exception e) \<and>
      (\<forall>e. slack_post w = Raise e \<longrightarrow> is_Exception e) \<and>
      (\<forall>r e. slack_post w = Return r \<and> resp_json r = Raise e \<longrightarrow> is_Exception e))"

subsection \<open>Worlds and clock readings used as examples\<close>

definition tuesday_10h :: datetime where
  "tuesday_10h = \<lparr>dow = Tuesday, hour = 10\<rparr>"

definition sunday_10h :: datetime where
  "sunday_10h = \<lparr>dow = Sunday, hour = 10\<rparr>"

definition slack_accepts :: response where
  "slack_accepts = \<lparr>resp_ok = True, resp_json = Return (JDict [(''ok'', JBool True)])\<rparr>"

definition slack_rejects :: response where
  "slack_rejects =
     \<lparr>resp_ok = True,
      resp_json = Return (JDict [(''ok'', JBool False), (''error'', JStr ''channel_not_found'')])\<rparr>"

definition vpn_after_two :: "nat \<Rightarrow> conn" where
  "vpn_after_two i = (if i < 2 then ConnFails (OSError ''timed out'') else Connected)"

definition world_ok :: world where
  "world_ok =
     \<lparr>db_host = ''db'', db_port = 5432, sock = vpn_after_two,
      engine_begin = Some (Return ()),
      read_sql = (\<lambda>q. Some (Return [Return ''CREATED 3 1.500,00''])),
      slack_post = Return slack_accepts\<rparr>"

definition world_vpn_down :: world where
  "world_vpn_down = world_ok\<lparr>sock := (\<lambda>i. ConnFails (OSError ''timed out''))\<rparr>"

definition world_bad_host :: world where
  \<comment> \<open>every connection attempt raises an exception that is not an \<open>OSError\<close>\<close>
  "world_bad_host = world_ok\<lparr>sock := (\<lambda>i. ConnFails (PyException ''UnicodeError''))\<rparr>"

definition world_db_hangs :: world where
  \<comment> \<open>the database accepts the connection and \<open>engine.begin()\<close> never comes back\<close>
  "world_db_hangs = world_ok\<lparr>engine_begin := None\<rparr>"

definition world_interrupted :: world where
  \<comment> \<open>the operator presses Ctrl-C while the query runs\<close>
  "world_interrupted = world_ok\<lparr>read_sql := (\<lambda>q. Some (Raise (BaseOnly ''KeyboardInterrupt'')))\<rparr>"

definition world_query_fails :: world where
  "world_query_fails = world_ok\<lparr>read_sql := (\<lambda>q. Some (Raise (PyException ''ProgrammingError'')))\<rparr>"

definition world_slack_rejects :: world where
  "world_slack_rejects = world_ok\<lparr>slack_post := Return slack_rejects\<rparr>"

section \<open>bot\_superset\_slack.py\<close>

text \<open>
  The one-shot script: log in to Superset, fetch a chart, build a message, send it with
  the Slack SDK. \<open>login\<close> and \<open>chart\<close> are what the two HTTP calls do, \<open>chat\<close> the
  exception \<open>client.chat_postMessage\<close> raises, if any.
\<close>

record superset_world =
  login :: "response res"
  chart :: "response res"
  chat :: "exn option"

text \<open>\<open>data["access_token"]\<close>: only a \<open>dict\<close> takes a string key.\<close>

fun subscript_key :: "json \<Rightarrow> string \<Rightarrow> json res" where
  "subscript_key (JDict kvs) k =
     (case map_of kvs k of Some v \<Rightarrow> Return v | None \<Rightarrow> Raise (PyException ''KeyError''))"
| "subscript_key j k = Raise (PyException ''TypeError'')"

text \<open>
  \<open>results[0]\<close>: the first element of a list, the first character of a string; a
  \<open>dict\<close> parsed from JSON has string keys only, so \<open>0\<close> is a missing key.
\<close>

fun subscript_0 :: "json \<Rightarrow> json res" where
  "subscript_0 (JList (x # xs)) = Return x"
| "subscript_0 (JList []) = Raise (PyException ''IndexError'')"
| "subscript_0 (JStr (c # cs)) = Return (JStr [c])"
| "subscript_0 (JStr []) = Raise (PyException ''IndexError'')"
| "subscript_0 (JDict kvs) = Raise (PyException ''KeyError'')"
| "subscript_0 j = Raise (PyException ''TypeError'')"

fun py_len :: "json \<Rightarrow> nat res" where
  "py_len (JList xs) = Return (length xs)"
| "py_len (JStr s) = Return (length s)"
| "py_len (JDict kvs) = Return (length kvs)"
| "py_len j = Raise (PyException ''TypeError'')"

text \<open>
  \<^verbatim>\<open>
  def get_superset_token() -> str:
      resp = requests.post(f"{SUPERSET_URL}/api/v1/security/login", json={...}, timeout=30)
      resp.raise_for_status()
      data = resp.json()
      return data["access_token"]
  \<close>
  \<open>raise_for_status\<close> raises \<open>requests.HTTPError\<close>, a subclass of \<open>OSError\<close>.
\<close>

definition get_superset_token :: "superset_world \<Rightarrow> json res \<times> event list" where
  "get_superset_token w =
     (case login w of
        Raise e \<Rightarrow> (Raise e, [HttpLogin])
      | Return resp \<Rightarrow>
          if \<not> resp_ok resp then (Raise (OSError ''HTTPError''), [HttpLogin])
          else
            (case resp_json resp of
               Raise e \<Rightarrow> (Raise e, [HttpLogin])
             | Return data \<Rightarrow> (subscript_key data ''access_token'', [HttpLogin])))"

text \<open>
  \<^verbatim>\<open>
  def get_chart_data(token: str, chart_id: int) -> dict:
      headers = {"Authorization": f"Bearer {token}"}
      resp = requests.get(f"{SUPERSET_URL}/api/v1/chart/{chart_id}/data", headers=headers, timeout=60)
      resp.raise_for_status()
      return resp.json()
  \<close>
\<close>

definition get_chart_data :: "superset_world \<Rightarrow> json \<Rightarrow> int \<Rightarrow> json res \<times> event list" where
  "get_chart_data w token chart_id =
     (case chart w of
        Raise e \<Rightarrow> (Raise e, [HttpChart token chart_id])
      | Return resp \<Rightarrow>
          if \<not> resp_ok resp then (Raise (OSError ''HTTPError''), [HttpChart token chart_id])
          else (resp_json resp, [HttpChart token chart_id]))"

text \<open>
  \<^verbatim>\<open>
  def processar(chart_data: dict) -> str:
      results = chart_data.get("result", [])
      if not results:
          return "Nenhum dado retornado pelo chart 5840."
      data = results[0].get("data", [])
      total_registros = len(data)
      mensagem = (... f"- Total de registros retornados: *{total_registros}*\n\n" ...)
      return mensagem
  \<close>
\<close>

definition processar :: "json \<Rightarrow> mensagem res" where
  "processar chart_data =
     (case dict_get chart_data ''result'' (JList []) of
        Raise e \<Rightarrow> Raise e
      | Return results \<Rightarrow>
          if \<not> truthy results then Return NenhumDado
          else
            (case subscript_0 results of
               Raise e \<Rightarrow> Raise e
             | Return first \<Rightarrow>
                 (case dict_get first ''data'' (JList []) of
                    Raise e \<Rightarrow> Raise e
                  | Return data \<Rightarrow>
                      (case py_len data of
                         Raise e \<Rightarrow> Raise e
                       | Return total_registros \<Rightarrow> Return (TotalRegistros total_registros)))))"

text \<open>
  \<^verbatim>\<open>
  def enviar_slack(texto: str):
      client = WebClient(token=SLACK_BOT_TOKEN)
      try:
          client.chat_postMessage(channel=SLACK_CHANNEL_ID, text=texto)
      except SlackApiError as e:
          print(f"Erro ao enviar mensagem pro Slack: {e.response['error']}")
          raise
  \<close>
  The handler prints and raises the same exception again; any other exception passes
  through untouched.
\<close>

definition enviar_slack :: "superset_world \<Rightarrow> mensagem \<Rightarrow> unit res \<times> event list" where
  "enviar_slack w texto =
     (case chat w of
        None \<Rightarrow> (Return (), [SdkPost texto])
      | Some e \<Rightarrow>
          if is_SlackApiError e then (Raise e, [SdkPost texto, Print SdkErro])
          else (Raise e, [SdkPost texto]))"

text \<open>
  \<^verbatim>\<open>
  def main():
      print("Autenticando no Superset...")
      token = get_superset_token()
      print("Buscando dados do chart...")
      chart_data = get_chart_data(token, CHART_ID)
      print("Processando resultados...")
      mensagem = processar(chart_data)
      print("Enviando mensagem pro Slack...")
      enviar_slack(mensagem)
      print("Concluido.")
  \<close>
  There is no \<open>try\<close> in \<open>main\<close>, and the script calls it bare.
\<close>

definition main :: "superset_world \<Rightarrow> int \<Rightarrow> unit res \<times> event list" where
  "main w chart_id =
     (case get_superset_token w of
        (Raise e, tr1) \<Rightarrow> (Raise e, Print Autenticando # tr1)
      | (Return token, tr1) \<Rightarrow>
          (case get_chart_data w token chart_id of
             (Raise e, tr2) \<Rightarrow> (Raise e, Print Autenticando # tr1 @ Print Buscando # tr2)
           | (Return chart_data, tr2) \<Rightarrow>
               (case processar chart_data of
                  Raise e \<Rightarrow>
                    (Raise e, Print Autenticando # tr1 @ Print Buscando # tr2 @ [Print Processando])
                | Return mensagem \<Rightarrow>
                    (case enviar_slack w mensagem of
                       (Raise e, tr3) \<Rightarrow>
                         (Raise e,
                          Print Autenticando # tr1 @ Print Buscando # tr2 @
                          Print Processando # Print Enviando # tr3)
                     | (Return u, tr3) \<Rightarrow>
                         (Return (),
                          Print Autenticando # tr1 @ Print Buscando # tr2 @
                          Print Processando # Print Enviando # tr3 @ [Print Concluido])))))"

definition superset_login_refused :: superset_world where
  \<comment> \<open>an example: Superset answers the login with an error status\<close>
  "superset_login_refused =
     \<lparr>login = Return \<lparr>resp_ok = False, resp_json = Return JNull\<rparr>,
      chart = Raise (OSError ''ConnectionError''),
      chat = None\<rparr>"

definition superset_chart_down :: superset_world where
  \<comment> \<open>an example: the login works, the request for the chart cannot connect\<close>
  "superset_chart_down =
     \<lparr>login = Return \<lparr>resp_ok = True,
                       resp_json = Return (JDict [(''access_token'', JStr ''jwt'')])\<rparr>,
      chart = Raise (OSError ''ConnectionError''),
      chat = None\<rparr>"

definition superset_chart_is_list :: superset_world where
  \<comment> \<open>an example: the chart endpoint answers with a JSON list, which has no \<open>get\<close>\<close>
  "superset_chart_is_list =
     \<lparr>login = Return \<lparr>resp_ok = True,
                       resp_json = Return (JDict [(''access_token'', JStr ''jwt'')])\<rparr>,
      chart = Return \<lparr>resp_ok = True, resp_json = Return (JList [])\<rparr>,
      chat = None\<rparr>"

definition superset_slack_down :: superset_world where
  \<comment> \<open>an example: Superset answers, Slack refuses the channel\<close>
  "superset_slack_down =
     \<lparr>login = Return \<lparr>resp_ok = True,
                       resp_json = Return (JDict [(''access_token'', JStr ''jwt'')])\<rparr>,
      chart = Return \<lparr>resp_ok = True,
                       resp_json = Return (JDict [(''result'',
                         JList [JDict [(''data'', JList [JInt 1, JInt 2])]])])\<rparr>,
      chat = Some (SlackApiError ''channel_not_found'')\<rparr>"

section \<open>The scheduler\<close>

text \<open>
  Both bots hand their jobs to the third-party \<open>schedule\<close> package
  (\<open>schedule.every(30).minutes.do(job_novo)\<close>, \<open>schedule.every().monday.at("11:30")\<close>)
  and then call \<open>schedule.run_pending()\<close> every 30 seconds. The package is not part
  of the repository: only these calls are. What the calls register is taken from the
  scripts; how a registered job becomes due, and what a tick does, is taken from
  section 4.4 of the specification.

  An instant is a number of minutes, counted from the midnight that starts some
  Monday.
\<close>

datatype rule = Every int | At "nat list" int

text \<open>
  The registrations of bot\_monitoramento.py:
  \<^verbatim>\<open>
  schedule.every(30).minutes.do(job_novo)
  schedule.every(40).minutes.do(job_refin)
  schedule.every(50).minutes.do(job_portability)
  \<close>
  and of bot\_resumo\_diario.py, Monday (day 0) to Saturday (day 5), at 11:30 and 17:30
  (minutes 690 and 1050 of the day):
  \<^verbatim>\<open>
  schedule.every().monday.at("11:30").do(job_resumo)
  schedule.every().monday.at("17:30").do(job_resumo)
  ...
  schedule.every().saturday.at("17:30").do(job_resumo)
  \<close>
\<close>

definition registrations_monitoramento :: "(string \<times> rule) list" where
  "registrations_monitoramento =
     [(''NOVO'', Every 30), (''REFIN'', Every 40), (''PORTABILITY'', Every 50)]"

definition registrations_resumo :: "(string \<times> rule) list" where
  "registrations_resumo =
     concat (map (\<lambda>d. [(''RESUMO'', At [d] 690), (''RESUMO'', At [d] 1050)]) [0, 1, 2, 3, 4, 5])"

definition registrations :: "(string \<times> rule) list" where
  "registrations = registrations_monitoramento @ registrations_resumo"

record entry =
  job_name :: string
  recurrence :: rule
  last_run :: "int option"

definition day_of :: "int \<Rightarrow> int" where
  \<comment> \<open>Modelled from the spec: the date of an instant, which the absolute rule compares
     ("last_run falls on an earlier date"); the calendar of the \<open>schedule\<close> package is
     not in the sources.\<close>
  "day_of t = t div 1440"

definition weekday_of :: "int \<Rightarrow> nat" where
  \<comment> \<open>Modelled from the spec: the weekday of an instant (0 is Monday), for "now's weekday
     is in W"; the calendar of the \<open>schedule\<close> package is not in the sources.\<close>
  "weekday_of t = nat (day_of t mod 7)"

definition time_of :: "int \<Rightarrow> int" where
  \<comment> \<open>Modelled from the spec: the wall-clock time of an instant, in minutes after
     midnight, for "now >= T for today"; the calendar of the \<open>schedule\<close> package is not in
     the sources.\<close>
  "time_of t = t mod 1440"

fun due :: "rule \<Rightarrow> int option \<Rightarrow> int \<Rightarrow> bool" where
  \<comment> \<open>Modelled from the spec: when a rule says "due", which the \<open>schedule\<close> package
     decides (its code is not in the sources). Section 4.4: the interval rule "every N
     units" is "due when now - last_run >= N, or immediately if last_run is null"; the
     absolute rule "at time T on weekdays W" is due when "now's weekday is in W", "last_run
     is null or last_run falls on an earlier date, and now >= T for today".\<close>
  "due (Every N) None now = True"
| "due (Every N) (Some t) now = (N \<le> now - t)"
| "due (At W T) None now = (weekday_of now \<in> set W \<and> T \<le> time_of now)"
| "due (At W T) (Some t) now =
     (weekday_of now \<in> set W \<and> day_of t < day_of now \<and> T \<le> time_of now)"

definition register :: "(string \<times> rule) list \<Rightarrow> entry list" where
  \<comment> \<open>Modelled from the spec: the registry right after registration, which the
     \<open>schedule\<close> package keeps (its code is not in the sources). Section 3: a
     ScheduleEntry pairs a job with its rule and "the instant it last ran (nullable =
     never run)".\<close>
  "register rs = map (\<lambda>(nm, r). \<lparr>job_name = nm, recurrence = r, last_run = None\<rparr>) rs"

fun tick :: "(string \<Rightarrow> JobOutcome) \<Rightarrow> int \<Rightarrow> entry list \<Rightarrow> (string \<times> JobOutcome) list \<times> entry list" where
  \<comment> \<open>Modelled from the spec: \<open>tick(now)\<close>, which is \<open>schedule.run_pending()\<close> of the
     \<open>schedule\<close> package (its code is not in the sources). Section 4.4: it "iterates
     all ScheduleEntry, and for each whose RecurrenceRule says due (computed from last_run
     and now), invokes Job.run() synchronously, then unconditionally updates last_run =
     now (even on Failed/Skipped)", in registration order. \<open>run\<close> gives the outcome of
     each job's run; the result is the list of dispatched jobs with their outcomes and
     the updated registry.\<close>
  "tick run now [] = ([], [])"
| "tick run now (e # es) =
     (case tick run now es of
        (dispatched, es') \<Rightarrow>
          if due (recurrence e) (last_run e) now
          then ((job_name e, run (job_name e)) # dispatched, e\<lparr>last_run := Some now\<rparr> # es')
          else (dispatched, e # es'))"





text \<open>
  A rule that cannot be due twice at one instant: a positive interval, or any absolute
  rule. Every registration of the two bots is one.
\<close>

fun positive_rule :: "rule \<Rightarrow> bool" where
  "positive_rule (Every N) = (0 < N)"
| "positive_rule (At W T) = True"

section \<open>bot\_resumo\_diario.py: the formatters\<close>

text \<open>
  The argument of a formatter is any Python object. What the formatters do with it
  depends only on whether it is \<open>None\<close> and on what \<open>float(value)\<close> does, so an
  object is one of: \<open>None\<close>; an object that \<open>float()\<close> converts, with the
  \<open>float\<close> it gives (a number, a numeric string); any other object, with the name of
  the exception that \<open>float()\<close> raises for it (\<open>TypeError\<close>, \<open>ValueError\<close>,
  \<open>OverflowError\<close>).
\<close>

datatype pyvalue = PyNone | PyNumber pyfloat | PyOther string

fun py_float :: "pyvalue \<Rightarrow> pyfloat res" where
  "py_float PyNone = Raise (PyException ''TypeError'')"
| "py_float (PyNumber v) = Return v"
| "py_float (PyOther c) = Raise (PyException c)"

text \<open>The decimal digits of a natural number, and of a number below 100 on two places.\<close>

fun digits :: "nat \<Rightarrow> string" where
  "digits n =
     (if n < 10 then [''0123456789'' ! n]
      else digits (n div 10) @ [''0123456789'' ! (n mod 10)])"

declare digits.simps [simp del]

definition two_digits :: "nat \<Rightarrow> string" where
  "two_digits d = [''0123456789'' ! (d div 10), ''0123456789'' ! (d mod 10)]"

text \<open>
  The \<open>,\<close> option of the format language: a separator between groups of three digits,
  counted from the right (\<open>group3\<close> works on the reversed digits).
\<close>

fun group3 :: "char \<Rightarrow> string \<Rightarrow> string" where
  "group3 sep (a # b # c # d # rest) = a # b # c # sep # group3 sep (d # rest)"
| "group3 sep ds = ds"

definition thousands :: "char \<Rightarrow> string \<Rightarrow> string" where
  "thousands sep ds = rev (group3 sep (rev ds))"

text \<open>
  The type \<open>.2f\<close> rounds the exact value of the double to two decimals, a tie going
  to the even neighbour: \<open>cents m e\<close> is \<open>m \<sqdot> 2\<^sup>e \<sqdot> 100\<close> rounded so. The sign printed
  is the sign of the double, also when it rounds to zero; \<open>nan\<close> and \<open>inf\<close> are
  printed as words.
\<close>

definition cents :: "nat \<Rightarrow> int \<Rightarrow> nat" where
  "cents m e =
     (let p = (if 0 \<le> e then 100 * m * 2 ^ nat e else 100 * m);
          q = (if 0 \<le> e then 1 else 2 ^ nat (- e));
          d = p div q;
          r = p mod q
      in if q < 2 * r \<or> (2 * r = q \<and> odd d) then d + 1 else d)"

definition sign :: "bool \<Rightarrow> string" where
  "sign neg = (if neg then ''-'' else [])"

fun format_2f :: "bool \<Rightarrow> pyfloat \<Rightarrow> string" where
  \<comment> \<open>\<open>f"{v:,.2f}"\<close> when the flag is set, \<open>f"{v:.2f}"\<close> otherwise\<close>
  "format_2f grouping NaN = ''nan''"
| "format_2f grouping (Inf neg) = sign neg @ ''inf''"
| "format_2f grouping (Finite neg m e) =
     sign neg @
     (if grouping then thousands (CHR '','') (digits (cents m e div 100))
      else digits (cents m e div 100)) @
     ''.'' @ two_digits (cents m e mod 100)"

text \<open>\<open>s.replace(old, new)\<close> for one-character \<open>old\<close> and \<open>new\<close>.\<close>

definition replace :: "char \<Rightarrow> char \<Rightarrow> string \<Rightarrow> string" where
  "replace old new s = map (\<lambda>c. if c = old then new else c) s"

text \<open>
  \<^verbatim>\<open>
  def format_brl(value) -> str:
      if value is None:
          return "-"
      try:
          v = float(value)
      except Exception:
          return "-"
      return ("R$ " + f"{v:,.2f}").replace(",", "X").replace(".", ",").replace("X", ".")
  \<close>
\<close>

definition format_brl :: "pyvalue \<Rightarrow> string res" where
  "format_brl value =
     (if value = PyNone then Return ''-''
      else
        (case py_float value of
           Raise e \<Rightarrow> if is_Exception e then Return ''-'' else Raise e
         | Return v \<Rightarrow>
             Return (replace (CHR ''X'') (CHR ''.'')
                      (replace (CHR ''.'') (CHR '','')
                        (replace (CHR '','') (CHR ''X'') (''R$ '' @ format_2f True v))))))"

text \<open>
  \<^verbatim>\<open>
  def format_pct(value) -> str:
      if value is None:
          return "-"
      try:
          v = float(value)
      except Exception:
          return "-"
      return f"{v:.2f}%"
  \<close>
\<close>

definition format_pct :: "pyvalue \<Rightarrow> string res" where
  "format_pct value =
     (if value = PyNone then Return ''-''
      else
        (case py_float value of
           Raise e \<Rightarrow> if is_Exception e then Return ''-'' else Raise e
         | Return v \<Rightarrow> Return (format_2f False v @ ''%'')))"

text \<open>
  What the claim about the formatters asks of their results, written directly: an
  amount of \<open>c\<close> cents the Brazilian way, with \<open>.\<close> between groups of three digits
  and \<open>,\<close> before the two decimals; and the shape "two digits after the separator".
\<close>

definition brl_text :: "bool \<Rightarrow> nat \<Rightarrow> string" where
  "brl_text neg c =
     sign neg @ thousands (CHR ''.'') (digits (c div 100)) @ '','' @ two_digits (c mod 100)"

definition pct_text :: "bool \<Rightarrow> nat \<Rightarrow> string" where
  "pct_text neg c = sign neg @ digits (c div 100) @ ''.'' @ two_digits (c mod 100) @ ''%''"

definition is_digit :: "char \<Rightarrow> bool" where
  "is_digit c = (c \<in> set ''0123456789'')"

definition two_decimals :: "char \<Rightarrow> string \<Rightarrow> bool" where
  "two_decimals sep s =
     (case rev s of
        d2 # d1 # p # rest \<Rightarrow> p = sep \<and> is_digit d1 \<and> is_digit d2
      | _ \<Rightarrow> False)"

text \<open>
  What the three \<open>replace\<close> calls do to one character: \<open>,\<close> and \<open>.\<close> change
  places, and an \<open>X\<close> already in the text ends as \<open>.\<close> too.
\<close>

definition swap_seps :: "char \<Rightarrow> char" where
  "swap_seps c =
     (if c = CHR '','' then CHR ''.''
      else if c = CHR ''.'' then CHR '',''
      else if c = CHR ''X'' then CHR ''.'' else c)"

section \<open>Properties\<close>

subsection \<open>The execution window\<close>

lemma weekday_number_Sunday: "weekday_number d = 6 \<longleftrightarrow> d = Sunday"
  by (cases d) simp_all

text \<open>
  Claim C2. The default window is closed on every Sunday, whatever the hour; on any
  other day it is open exactly when the hour lies in the half-open range from 6 to 20,
  and so closed for every hour outside that range.
\<close>

theorem C2_default_window:
  "(dow agora = Sunday \<longrightarrow> \<not> dentro_da_janela_execucao agora) \<and>
   (dow agora \<noteq> Sunday \<longrightarrow>
      dentro_da_janela_execucao agora = (6 \<le> hour agora \<and> hour agora < 20))"
  by (simp add: dentro_da_janela_execucao_def weekday_def weekday_number_Sunday)

theorem C2_default_window_witness:
  "\<not> dentro_da_janela_execucao \<lparr>dow = Sunday, hour = 10\<rparr> \<and>
   dentro_da_janela_execucao \<lparr>dow = Tuesday, hour = 6\<rparr> \<and>
   dentro_da_janela_execucao \<lparr>dow = Saturday, hour = 19\<rparr> \<and>
   \<not> dentro_da_janela_execucao \<lparr>dow = Tuesday, hour = 20\<rparr> \<and>
   \<not> dentro_da_janela_execucao \<lparr>dow = Tuesday, hour = 5\<rparr>"
  using C2_default_window [of "\<lparr>dow = Sunday, hour = 10\<rparr>"]
        C2_default_window [of "\<lparr>dow = Tuesday, hour = 6\<rparr>"]
        C2_default_window [of "\<lparr>dow = Saturday, hour = 19\<rparr>"]
        C2_default_window [of "\<lparr>dow = Tuesday, hour = 20\<rparr>"]
        C2_default_window [of "\<lparr>dow = Tuesday, hour = 5\<rparr>"]
  by simp

subsection \<open>The reachability wait\<close>

lemma unreachable_upto_iff: "unreachable_upto sk n \<longleftrightarrow> (\<forall>i<n. unreachable (sk i))"
  by (induction n) (auto simp: less_Suc_eq)

lemma wait_loop_skip:
  "(\<forall>k<n. unreachable (sk (i + k))) \<Longrightarrow>
   wait_loop sk host port interval i tr =
   wait_loop sk host port interval (i + n) (tr @ retries host port interval n)"
proof (induction n arbitrary: i tr)
  case 0
  then show ?case by (simp add: retries_def)
next
  case (Suc n)
  from Suc.prems have u0: "unreachable (sk i)" by (metis add.right_neutral zero_less_Suc)
  then obtain e where e: "sk i = ConnFails e" "is_OSError e"
    by (cases "sk i") auto
  from Suc.prems have rest: "\<forall>k<n. unreachable (sk (Suc i + k))"
    by (metis Suc_less_eq add_Suc_shift)
  have "wait_loop sk host port interval i tr =
        wait_loop sk host port interval (Suc i)
          (tr @ [Connect host port, Print Inacessivel, Sleep interval])"
    by (subst wait_loop.simps) (simp add: e)
  also have "\<dots> = wait_loop sk host port interval (Suc i + n)
          ((tr @ [Connect host port, Print Inacessivel, Sleep interval]) @ retries host port interval n)"
    by (rule Suc.IH [OF rest])
  finally show ?case by (simp add: retries_def)
qed

lemma wait_loop_Connected:
  "sk i = Connected \<Longrightarrow>
   wait_loop sk host port interval i tr =
   Some (Return (), tr @ [Connect host port, Print Acessivel])"
  by (subst wait_loop.simps) simp

lemma wait_loop_other:
  "sk i = ConnFails e \<Longrightarrow> \<not> is_OSError e \<Longrightarrow>
   wait_loop sk host port interval i tr = Some (Raise e, tr @ [Connect host port])"
  by (subst wait_loop.simps) simp

lemma wait_loop_Some_answer:
  assumes "wait_loop sk0 host0 port0 interval0 i0 tr0 = Some y0"
  shows "\<exists>k. \<not> unreachable (sk0 k)"
proof (rule wait_loop.raw_induct
    [where P = "\<lambda>sk host port interval i tr y. \<exists>k. \<not> unreachable (sk k)", OF _ assms])
  fix wl :: "(nat \<Rightarrow> conn) \<Rightarrow> string \<Rightarrow> nat \<Rightarrow> nat \<Rightarrow> nat \<Rightarrow> event list \<Rightarrow> (unit res \<times> event list) option"
  fix sk host port interval i tr y
  assume IH: "\<And>sk host port interval i tr y.
      wl sk host port interval i tr = Some y \<Longrightarrow> \<exists>k. \<not> unreachable (sk k)"
  assume body: "(case sk i of
        Connected \<Rightarrow> Some (Return (), tr @ [Connect host port, Print Acessivel])
      | ConnFails e \<Rightarrow>
          if is_OSError e
          then wl sk host port interval (Suc i)
                 (tr @ [Connect host port, Print Inacessivel, Sleep interval])
          else Some (Raise e, tr @ [Connect host port])) = Some y"
  show "\<exists>k. \<not> unreachable (sk k)"
  proof (cases "unreachable (sk i)")
    case True
    then obtain e where e: "sk i = ConnFails e" "is_OSError e"
      by (cases "sk i") auto
    with body have "wl sk host port interval (Suc i)
        (tr @ [Connect host port, Print Inacessivel, Sleep interval]) = Some y"
      by simp
    then show ?thesis by (rule IH)
  next
    case False
    then show ?thesis by blast
  qed
qed

lemma wait_loop_never:
  "(\<forall>k. unreachable (sk k)) \<Longrightarrow> wait_loop sk host port interval i tr = None"
  using wait_loop_Some_answer [of sk host port interval i tr] by (cases "wait_loop sk host port interval i tr") auto

lemma wait_loop_first_answer:
  assumes "unreachable_upto sk n" and "\<not> unreachable (sk n)"
  shows "wait_loop sk host port interval 0 tr =
         (case sk n of
            Connected \<Rightarrow>
              Some (Return (), tr @ retries host port interval n @ [Connect host port, Print Acessivel])
          | ConnFails e \<Rightarrow>
              Some (Raise e, tr @ retries host port interval n @ [Connect host port]))"
proof -
  from assms(1) have "\<forall>k<n. unreachable (sk (0 + k))"
    by (simp add: unreachable_upto_iff)
  then have skip: "wait_loop sk host port interval 0 tr =
      wait_loop sk host port interval (0 + n) (tr @ retries host port interval n)"
    by (rule wait_loop_skip)
  show ?thesis
  proof (cases "sk n")
    case Connected
    then show ?thesis using skip by (simp add: wait_loop_Connected)
  next
    case (ConnFails e)
    with assms(2) have "\<not> is_OSError e" by simp
    with ConnFails show ?thesis using skip by (simp add: wait_loop_other)
  qed
qed

lemma first_answer_exists:
  assumes "\<not> unreachable (sk k)"
  shows "\<exists>n. unreachable_upto sk n \<and> \<not> unreachable (sk n)"
proof -
  from assms have "\<exists>n. \<not> unreachable (sk n) \<and> (\<forall>m<n. \<not> \<not> unreachable (sk m))"
    using exists_least_iff [of "\<lambda>n. \<not> unreachable (sk n)"] by blast
  then show ?thesis by (auto simp: unreachable_upto_iff)
qed

lemma wait_for_vpn_and_db_Some:
  assumes "wait_for_vpn_and_db w host port interval = Some (r, tr)"
  shows "\<exists>n. unreachable_upto (sock w) n \<and>
           ((sock w n = Connected \<and> r = Return () \<and>
             tr = Print (Verificando host port) # retries host port interval n @
                  [Connect host port, Print Acessivel]) \<or>
            (\<exists>e. sock w n = ConnFails e \<and> \<not> is_OSError e \<and> r = Raise e \<and>
             tr = Print (Verificando host port) # retries host port interval n @
                  [Connect host port]))"
proof -
  from assms have "\<exists>k. \<not> unreachable (sock w k)"
    unfolding wait_for_vpn_and_db_def by (rule wait_loop_Some_answer)
  then obtain n where n: "unreachable_upto (sock w) n" "\<not> unreachable (sock w n)"
    using first_answer_exists by blast
  show ?thesis
  proof (cases "sock w n")
    case Connected
    with assms n show ?thesis
      using wait_loop_first_answer [of "sock w" n host port interval "[Print (Verificando host port)]"]
      by (intro exI [of _ n]) (simp add: wait_for_vpn_and_db_def)
  next
    case (ConnFails e)
    with assms n show ?thesis
      using wait_loop_first_answer [of "sock w" n host port interval "[Print (Verificando host port)]"]
      by (intro exI [of _ n]) (simp add: wait_for_vpn_and_db_def)
  qed
qed

text \<open>
  Claim C5, as the code has it. The reachability wait never hands a connection
  failure (an \<open>OSError\<close>) to its caller. When the first \<open>n\<close> attempts fail with an
  \<open>OSError\<close> and attempt \<open>n\<close> connects, the call returns normally right after that
  attempt, having slept the poll interval once after each of the \<open>n\<close> failures; a
  normal return always comes from such a connected attempt; and the call never returns
  exactly when every attempt fails with an \<open>OSError\<close>. An attempt that raises
  anything else ends the wait: that exception reaches the caller, and it is the only
  kind that does.
\<close>

theorem C5_wait_for_vpn_and_db:
  "(unreachable_upto (sock w) n \<and> sock w n = Connected \<longrightarrow>
      wait_for_vpn_and_db w host port interval =
        Some (Return (),
              Print (Verificando host port) # retries host port interval n @
              [Connect host port, Print Acessivel])) \<and>
   (unreachable_upto (sock w) n \<and> sock w n = ConnFails e \<and> \<not> is_OSError e \<longrightarrow>
      wait_for_vpn_and_db w host port interval =
        Some (Raise e,
              Print (Verificando host port) # retries host port interval n @
              [Connect host port])) \<and>
   ((\<forall>k. unreachable (sock w k)) \<longrightarrow> wait_for_vpn_and_db w host port interval = None) \<and>
   (wait_for_vpn_and_db w host port interval = None \<longrightarrow> (\<forall>k. unreachable (sock w k))) \<and>
   (\<forall>tr. wait_for_vpn_and_db w host port interval = Some (Return (), tr) \<longrightarrow>
      (\<exists>m. unreachable_upto (sock w) m \<and> sock w m = Connected \<and>
           tr = Print (Verificando host port) # retries host port interval m @
                [Connect host port, Print Acessivel])) \<and>
   (\<forall>x tr. wait_for_vpn_and_db w host port interval = Some (Raise x, tr) \<longrightarrow>
      \<not> is_OSError x \<and>
      (\<exists>m. unreachable_upto (sock w) m \<and> sock w m = ConnFails x \<and>
           tr = Print (Verificando host port) # retries host port interval m @
                [Connect host port]))"
proof -
  let ?wait = "wait_for_vpn_and_db w host port interval"
  let ?v = "[Print (Verificando host port)]"
  have connects: "unreachable_upto (sock w) n \<and> sock w n = Connected \<longrightarrow>
      ?wait = Some (Return (),
              Print (Verificando host port) # retries host port interval n @
              [Connect host port, Print Acessivel])"
    using wait_loop_first_answer [of "sock w" n host port interval ?v]
    by (simp add: wait_for_vpn_and_db_def)
  have other: "unreachable_upto (sock w) n \<and> sock w n = ConnFails e \<and> \<not> is_OSError e \<longrightarrow>
      ?wait = Some (Raise e,
              Print (Verificando host port) # retries host port interval n @
              [Connect host port])"
    using wait_loop_first_answer [of "sock w" n host port interval ?v]
    by (simp add: wait_for_vpn_and_db_def)
  have never: "(\<forall>k. unreachable (sock w k)) \<longrightarrow> ?wait = None"
    by (simp add: wait_for_vpn_and_db_def wait_loop_never)
  have blocked: "?wait = None \<longrightarrow> (\<forall>k. unreachable (sock w k))"
  proof (intro impI allI)
    fix k assume none: "?wait = None"
    show "unreachable (sock w k)"
    proof (rule ccontr)
      assume "\<not> unreachable (sock w k)"
      then obtain m where m: "unreachable_upto (sock w) m" "\<not> unreachable (sock w m)"
        using first_answer_exists by blast
      then have "wait_loop (sock w) host port interval 0 ?v \<noteq> None"
        using wait_loop_first_answer [of "sock w" m host port interval ?v]
        by (simp split: conn.splits)
      with none show False by (simp add: wait_for_vpn_and_db_def)
    qed
  qed
  have returned: "\<forall>tr. ?wait = Some (Return (), tr) \<longrightarrow>
      (\<exists>m. unreachable_upto (sock w) m \<and> sock w m = Connected \<and>
           tr = Print (Verificando host port) # retries host port interval m @
                [Connect host port, Print Acessivel])"
  proof (intro allI impI)
    fix tr assume "?wait = Some (Return (), tr)"
    from wait_for_vpn_and_db_Some [OF this] show
      "\<exists>m. unreachable_upto (sock w) m \<and> sock w m = Connected \<and>
           tr = Print (Verificando host port) # retries host port interval m @
                [Connect host port, Print Acessivel]"
      by auto
  qed
  have raised: "\<forall>x tr. ?wait = Some (Raise x, tr) \<longrightarrow>
      \<not> is_OSError x \<and>
      (\<exists>m. unreachable_upto (sock w) m \<and> sock w m = ConnFails x \<and>
           tr = Print (Verificando host port) # retries host port interval m @
                [Connect host port])"
  proof (intro allI impI)
    fix x tr assume "?wait = Some (Raise x, tr)"
    from wait_for_vpn_and_db_Some [OF this] show
      "\<not> is_OSError x \<and>
      (\<exists>m. unreachable_upto (sock w) m \<and> sock w m = ConnFails x \<and>
           tr = Print (Verificando host port) # retries host port interval m @
                [Connect host port])"
      by auto
  qed
  show ?thesis
    by (rule conjI [OF connects conjI [OF other conjI [OF never conjI [OF blocked
          conjI [OF returned raised]]]]])
qed

lemma retries_2:
  "retries host port interval 2 =
     [Connect host port, Print Inacessivel, Sleep interval,
      Connect host port, Print Inacessivel, Sleep interval]"
  by (simp add: retries_def numeral_2_eq_2)

lemma unreachable_world_vpn_down: "unreachable (sock world_vpn_down k)"
  by (simp add: world_vpn_down_def)

theorem C5_wait_for_vpn_and_db_witness:
  "unreachable_upto (sock world_ok) 2 \<and> sock world_ok 2 = Connected \<and>
   wait_for_vpn_and_db world_ok ''db'' 5432 900 =
     Some (Return (),
           [Print (Verificando ''db'' 5432),
            Connect ''db'' 5432, Print Inacessivel, Sleep 900,
            Connect ''db'' 5432, Print Inacessivel, Sleep 900,
            Connect ''db'' 5432, Print Acessivel]) \<and>
   unreachable_upto (sock world_bad_host) 0 \<and>
   sock world_bad_host 0 = ConnFails (PyException ''UnicodeError'') \<and>
   \<not> is_OSError (PyException ''UnicodeError'') \<and>
   wait_for_vpn_and_db world_bad_host ''db'' 5432 900 =
     Some (Raise (PyException ''UnicodeError''),
           [Print (Verificando ''db'' 5432), Connect ''db'' 5432]) \<and>
   (\<forall>k. unreachable (sock world_vpn_down k)) \<and>
   wait_for_vpn_and_db world_vpn_down ''db'' 5432 900 = None"
proof -
  have ok: "unreachable_upto (sock world_ok) 2 \<and> sock world_ok 2 = Connected"
    by (simp add: world_ok_def vpn_after_two_def numeral_2_eq_2)
  have bad: "unreachable_upto (sock world_bad_host) 0 \<and>
      sock world_bad_host 0 = ConnFails (PyException ''UnicodeError'') \<and>
      \<not> is_OSError (PyException ''UnicodeError'')"
    by (simp add: world_bad_host_def)
  have down: "\<forall>k. unreachable (sock world_vpn_down k)"
    by (simp add: unreachable_world_vpn_down)
  have r1: "wait_for_vpn_and_db world_ok ''db'' 5432 900 =
      Some (Return (),
            Print (Verificando ''db'' 5432) # retries ''db'' 5432 900 2 @
            [Connect ''db'' 5432, Print Acessivel])"
    using ok C5_wait_for_vpn_and_db [of world_ok 2 "''db''" 5432 900] by blast
  have r2: "wait_for_vpn_and_db world_bad_host ''db'' 5432 900 =
      Some (Raise (PyException ''UnicodeError''),
            Print (Verificando ''db'' 5432) # retries ''db'' 5432 900 0 @
            [Connect ''db'' 5432])"
    using bad
      C5_wait_for_vpn_and_db [of world_bad_host 0 "''db''" 5432 900 "PyException ''UnicodeError''"]
    by blast
  have r3: "wait_for_vpn_and_db world_vpn_down ''db'' 5432 900 = None"
    using down C5_wait_for_vpn_and_db [of world_vpn_down 0 "''db''" 5432 900] by blast
  have e0: "retries ''db'' 5432 900 0 = []" by (simp add: retries_def)
  from r1 have r1': "wait_for_vpn_and_db world_ok ''db'' 5432 900 =
     Some (Return (),
           [Print (Verificando ''db'' 5432),
            Connect ''db'' 5432, Print Inacessivel, Sleep 900,
            Connect ''db'' 5432, Print Inacessivel, Sleep 900,
            Connect ''db'' 5432, Print Acessivel])"
    by (simp only: retries_2 append.simps)
  from r2 have r2': "wait_for_vpn_and_db world_bad_host ''db'' 5432 900 =
     Some (Raise (PyException ''UnicodeError''),
           [Print (Verificando ''db'' 5432), Connect ''db'' 5432])"
    by (simp only: e0 append.simps)
  show ?thesis
    using ok bad down r1' r2' r3 by (intro conjI) (elim conjE, assumption)+
qed

text \<open>
  Claim C5 as stated fails for an attempt that raises something other than an
  \<open>OSError\<close> (a host name that cannot be encoded raises \<open>UnicodeError\<close>): the wait
  ends at once by handing that error to its caller.
\<close>

theorem C5_other_error_reaches_caller:
  "wait_for_vpn_and_db world_bad_host ''db'' 5432 900 =
     Some (Raise (PyException ''UnicodeError''),
           [Print (Verificando ''db'' 5432), Connect ''db'' 5432])"
  using wait_loop_other [of "sock world_bad_host" 0 "PyException ''UnicodeError''"
      "''db''" 5432 900 "[Print (Verificando ''db'' 5432)]"]
  by (simp add: wait_for_vpn_and_db_def world_bad_host_def)

subsection \<open>Job runs\<close>

lemma outcome_snoc: "outcome (tr @ [Print l]) = outcome_of_log l"
  by (induction tr rule: outcome.induct) auto

lemma outcome_Cons_snoc: "outcome (ev # tr @ [Print l]) = outcome_of_log l"
  using outcome_snoc [of "ev # tr" l] by simp

lemma outcome_Cons_append_snoc: "outcome (ev # tr @ tr' @ [Print l]) = outcome_of_log l"
  using outcome_snoc [of "ev # tr @ tr'" l] by simp

lemma deliveries_append: "deliveries (xs @ ys) = deliveries xs + deliveries ys"
  by (simp add: deliveries_def)

lemma deliveries_retries: "deliveries (retries host port interval n) = 0"
  by (induction n) (simp_all add: retries_def deliveries_def)

lemma wait_for_vpn_and_db_deliveries:
  assumes "wait_for_vpn_and_db w host port interval = Some (r, tr)"
  shows "deliveries tr = 0"
proof -
  from wait_for_vpn_and_db_Some [OF assms] obtain n where
    "tr = Print (Verificando host port) # retries host port interval n @ [Connect host port, Print Acessivel]
     \<or> tr = Print (Verificando host port) # retries host port interval n @ [Connect host port]"
    by blast
  moreover have "deliveries (Print (Verificando host port) # retries host port interval n @ [Connect host port, Print Acessivel]) = 0"
    using deliveries_append [of "[Print (Verificando host port)]" "retries host port interval n @ [Connect host port, Print Acessivel]"]
    by (simp add: deliveries_append deliveries_retries) (simp add: deliveries_def)
  moreover have "deliveries (Print (Verificando host port) # retries host port interval n @ [Connect host port]) = 0"
    using deliveries_append [of "[Print (Verificando host port)]" "retries host port interval n @ [Connect host port]"]
    by (simp add: deliveries_append deliveries_retries) (simp add: deliveries_def)
  ultimately show ?thesis by auto
qed

lemma run_query_Some:
  assumes "run_query w q = Some (r, tr)"
  shows "\<exists>r0 tr0. wait_for_vpn_and_db w (db_host w) (db_port w) 900 = Some (r0, tr0) \<and>
     ((\<exists>e. r0 = Raise e \<and> r = Raise e \<and> tr = tr0) \<or>
      (r0 = Return () \<and>
       (\<exists>e. engine_begin w = Some (Raise e) \<and> r = Raise e \<and>
            tr = tr0 @ [CreateEngine, Begin])) \<or>
      (r0 = Return () \<and> engine_begin w = Some (Return ()) \<and>
       (\<exists>e. read_sql w q = Some (Raise e) \<and> r = Raise e \<and>
            tr = tr0 @ [CreateEngine, Begin, ReadSql q, Release])) \<or>
      (r0 = Return () \<and> engine_begin w = Some (Return ()) \<and>
       (\<exists>df. read_sql w q = Some (Return df) \<and> r = Return df \<and>
            tr = tr0 @ [CreateEngine, Begin, ReadSql q, Release, Dispose])))"
proof (cases "wait_for_vpn_and_db w (db_host w) (db_port w) 900")
  case None
  with assms show ?thesis by (simp add: run_query_def)
next
  case (Some p)
  obtain r0 tr0 where p: "p = (r0, tr0)" by (cases p)
  show ?thesis
  proof (cases r0)
    case (Raise e)
    with assms Some p show ?thesis by (auto simp: run_query_def)
  next
    case (Return u)
    note r0 = this
    show ?thesis
    proof (cases "engine_begin w")
      case None
      with assms Some p r0 show ?thesis by (simp add: run_query_def)
    next
      case eb: (Some b)
      show ?thesis
      proof (cases b)
        case (Raise e)
        with assms Some p r0 eb show ?thesis by (auto simp: run_query_def)
      next
        case (Return c)
        note b = this
        show ?thesis
        proof (cases "read_sql w q")
          case None
          with assms Some p r0 eb b show ?thesis by (auto simp: run_query_def)
        next
          case sql: (Some d)
          show ?thesis
          proof (cases d)
            case (Raise e)
            with assms Some p r0 eb b sql show ?thesis by (auto simp: run_query_def)
          next
            case (Return df)
            with assms Some p r0 eb b sql show ?thesis by (auto simp: run_query_def)
          qed
        qed
      qed
    qed
  qed
qed

lemma run_query_deliveries:
  assumes "run_query w q = Some (r, tr)"
  shows "deliveries tr = 0"
proof -
  from run_query_Some [OF assms] obtain r0 tr0 where
    w: "wait_for_vpn_and_db w (db_host w) (db_port w) 900 = Some (r0, tr0)"
    and tr: "tr = tr0 \<or> tr = tr0 @ [CreateEngine, Begin]
      \<or> tr = tr0 @ [CreateEngine, Begin, ReadSql q, Release]
      \<or> tr = tr0 @ [CreateEngine, Begin, ReadSql q, Release, Dispose]"
    by blast
  have d0: "deliveries tr0 = 0" using w by (rule wait_for_vpn_and_db_deliveries)
  have "deliveries [CreateEngine, Begin] = 0"
    "deliveries [CreateEngine, Begin, ReadSql q, Release] = 0"
    "deliveries [CreateEngine, Begin, ReadSql q, Release, Dispose] = 0"
    by (simp_all add: deliveries_def)
  with d0 tr show ?thesis
    by (auto simp: deliveries_append)
qed

lemma job_esteira_fetch_error:
  assumes "dentro_da_janela_execucao agora"
    and "run_query w q = Some (Raise e, tr0)" and "is_Exception e"
  shows "\<exists>tr. job_esteira tag q produto_label w agora = Some (Return (), tr) \<and>
              outcome tr = Some (Failed e) \<and> deliveries tr = 0"
proof -
  have d0: "deliveries tr0 = 0" using assms(2) by (rule run_query_deliveries)
  have "job_esteira tag q produto_label w agora =
          Some (Return (), Print (Iniciando tag) # tr0 @ [Print (Erro tag e)])"
    using assms by (simp add: job_esteira_def except_Exception_def)
  moreover have "outcome (Print (Iniciando tag) # tr0 @ [Print (Erro tag e)]) = Some (Failed e)"
    by (simp add: outcome_Cons_snoc)
  moreover have "deliveries (Print (Iniciando tag) # tr0 @ [Print (Erro tag e)]) = 0"
    using d0 deliveries_append [of "[Print (Iniciando tag)]" "tr0 @ [Print (Erro tag e)]"]
    by (simp add: deliveries_append) (simp add: deliveries_def)
  ultimately show ?thesis by blast
qed

lemma job_resumo_fetch_error:
  assumes "run_query w SQL_RESUMO = Some (Raise e, tr0)" and "is_Exception e"
  shows "\<exists>tr. job_resumo w agora = Some (Return (), tr) \<and>
              outcome tr = Some (Failed e) \<and> deliveries tr = 0"
proof -
  have d0: "deliveries tr0 = 0" using assms(1) by (rule run_query_deliveries)
  have "job_resumo w agora =
          Some (Return (), Print (Iniciando ''RESUMO'') # tr0 @ [Print (Erro ''RESUMO'' e)])"
    using assms by (simp add: job_resumo_def except_Exception_def)
  moreover have "outcome (Print (Iniciando ''RESUMO'') # tr0 @ [Print (Erro ''RESUMO'' e)]) = Some (Failed e)"
    by (simp add: outcome_Cons_snoc)
  moreover have "deliveries (Print (Iniciando ''RESUMO'') # tr0 @ [Print (Erro ''RESUMO'' e)]) = 0"
    using d0 deliveries_append [of "[Print (Iniciando ''RESUMO'')]" "tr0 @ [Print (Erro ''RESUMO'' e)]"]
    by (simp add: deliveries_append) (simp add: deliveries_def)
  ultimately show ?thesis by blast
qed

lemma run_query_after_wait:
  assumes "unreachable_upto (sock w) n" and "sock w n = Connected"
  shows "run_query w q =
     (case engine_begin w of
        None \<Rightarrow> None
      | Some (Raise e) \<Rightarrow>
          Some (Raise e,
                Print (Verificando (db_host w) (db_port w)) #
                retries (db_host w) (db_port w) 900 n @
                [Connect (db_host w) (db_port w), Print Acessivel, CreateEngine, Begin])
      | Some (Return c) \<Rightarrow>
          (case read_sql w q of
             None \<Rightarrow> None
           | Some (Raise e) \<Rightarrow>
               Some (Raise e,
                     Print (Verificando (db_host w) (db_port w)) #
                     retries (db_host w) (db_port w) 900 n @
                     [Connect (db_host w) (db_port w), Print Acessivel,
                      CreateEngine, Begin, ReadSql q, Release])
           | Some (Return df) \<Rightarrow>
               Some (Return df,
                     Print (Verificando (db_host w) (db_port w)) #
                     retries (db_host w) (db_port w) 900 n @
                     [Connect (db_host w) (db_port w), Print Acessivel,
                      CreateEngine, Begin, ReadSql q, Release, Dispose])))"
proof -
  have "wait_for_vpn_and_db w (db_host w) (db_port w) 900 =
        Some (Return (),
              Print (Verificando (db_host w) (db_port w)) #
              retries (db_host w) (db_port w) 900 n @
              [Connect (db_host w) (db_port w), Print Acessivel])"
    using assms
      wait_loop_first_answer [of "sock w" n "db_host w" "db_port w" 900
        "[Print (Verificando (db_host w) (db_port w))]"]
    by (simp add: wait_for_vpn_and_db_def)
  then show ?thesis
    by (simp add: run_query_def split: option.splits res.splits)
qed

lemma vpn_after_two_upto: "unreachable_upto vpn_after_two 2"
  by (simp add: vpn_after_two_def numeral_2_eq_2)

lemma vpn_after_two_2: "vpn_after_two 2 = Connected"
  by (simp add: vpn_after_two_def)

lemma janela_tuesday_10h: "dentro_da_janela_execucao tuesday_10h"
  by (simp add: dentro_da_janela_execucao_def weekday_def tuesday_10h_def)

lemma janela_sunday_10h: "\<not> dentro_da_janela_execucao sunday_10h"
  by (simp add: dentro_da_janela_execucao_def weekday_def sunday_10h_def)

lemma run_query_world_query_fails:
  "run_query world_query_fails q =
     Some (Raise (PyException ''ProgrammingError''),
           [Print (Verificando ''db'' 5432),
            Connect ''db'' 5432, Print Inacessivel, Sleep 900,
            Connect ''db'' 5432, Print Inacessivel, Sleep 900,
            Connect ''db'' 5432, Print Acessivel,
            CreateEngine, Begin, ReadSql q, Release])"
  using run_query_after_wait [of world_query_fails 2 q]
  by (simp add: world_query_fails_def world_ok_def vpn_after_two_upto vpn_after_two_2 retries_2)

text \<open>
  Claim C6. In every run in which fetching fails (\<open>run_query\<close> raises an
  \<open>Exception\<close>), the job returns normally, the outcome it logs is Failed with that
  error, and the run makes no delivery to Slack. This holds for the three windowed jobs
  (which fetch only inside the window) and for the daily summary.
\<close>

theorem C6_fetch_error:
  "(dentro_da_janela_execucao agora \<and> run_query w SQL_NOVO = Some (Raise e, tr0) \<and>
    is_Exception e \<longrightarrow>
      (\<exists>tr. job_novo w agora = Some (Return (), tr) \<and>
            outcome tr = Some (Failed e) \<and> deliveries tr = 0)) \<and>
   (dentro_da_janela_execucao agora \<and> run_query w SQL_REFIN = Some (Raise e, tr0) \<and>
    is_Exception e \<longrightarrow>
      (\<exists>tr. job_refin w agora = Some (Return (), tr) \<and>
            outcome tr = Some (Failed e) \<and> deliveries tr = 0)) \<and>
   (dentro_da_janela_execucao agora \<and> run_query w SQL_PORTABILITY = Some (Raise e, tr0) \<and>
    is_Exception e \<longrightarrow>
      (\<exists>tr. job_portability w agora = Some (Return (), tr) \<and>
            outcome tr = Some (Failed e) \<and> deliveries tr = 0)) \<and>
   (run_query w SQL_RESUMO = Some (Raise e, tr0) \<and> is_Exception e \<longrightarrow>
      (\<exists>tr. job_resumo w agora = Some (Return (), tr) \<and>
            outcome tr = Some (Failed e) \<and> deliveries tr = 0))"
  unfolding job_novo_def job_refin_def job_portability_def
  using job_esteira_fetch_error [of agora w _ e tr0] job_resumo_fetch_error [of w e tr0 agora]
  by blast

theorem C6_fetch_error_witness:
  "dentro_da_janela_execucao tuesday_10h \<and>
   run_query world_query_fails SQL_NOVO =
     Some (Raise (PyException ''ProgrammingError''),
           [Print (Verificando ''db'' 5432),
            Connect ''db'' 5432, Print Inacessivel, Sleep 900,
            Connect ''db'' 5432, Print Inacessivel, Sleep 900,
            Connect ''db'' 5432, Print Acessivel,
            CreateEngine, Begin, ReadSql SQL_NOVO, Release]) \<and>
   is_Exception (PyException ''ProgrammingError'') \<and>
   (\<exists>tr. job_novo world_query_fails tuesday_10h = Some (Return (), tr) \<and>
         outcome tr = Some (Failed (PyException ''ProgrammingError'')) \<and> deliveries tr = 0)"
  using C6_fetch_error [of tuesday_10h world_query_fails "PyException ''ProgrammingError''"
      "[Print (Verificando ''db'' 5432),
        Connect ''db'' 5432, Print Inacessivel, Sleep 900,
        Connect ''db'' 5432, Print Inacessivel, Sleep 900,
        Connect ''db'' 5432, Print Acessivel,
        CreateEngine, Begin, ReadSql SQL_NOVO, Release]"]
    janela_tuesday_10h run_query_world_query_fails [of SQL_NOVO]
  by simp

text \<open>
  Claim C8. When the window is closed, each of the three windowed jobs returns at once
  with the outcome Skipped ("outside window"): the only thing the run does is print
  that line, so it makes no connection attempt, no query and no delivery.
\<close>

theorem C8_outside_window:
  "\<not> dentro_da_janela_execucao agora \<longrightarrow>
     job_novo w agora = Some (Return (), [Print (Fora ''NOVO'')]) \<and>
     job_refin w agora = Some (Return (), [Print (Fora ''REFIN'')]) \<and>
     job_portability w agora = Some (Return (), [Print (Fora ''PORTABILITY'')]) \<and>
     outcome [Print (Fora ''NOVO'')] = Some (Skipped ''outside window'') \<and>
     outcome [Print (Fora ''REFIN'')] = Some (Skipped ''outside window'') \<and>
     outcome [Print (Fora ''PORTABILITY'')] = Some (Skipped ''outside window'')"
  by (simp add: job_novo_def job_refin_def job_portability_def job_esteira_def)

theorem C8_outside_window_witness:
  "\<not> dentro_da_janela_execucao sunday_10h \<and>
   job_novo world_ok sunday_10h = Some (Return (), [Print (Fora ''NOVO'')]) \<and>
   job_refin world_vpn_down sunday_10h = Some (Return (), [Print (Fora ''REFIN'')]) \<and>
   job_portability world_query_fails sunday_10h =
     Some (Return (), [Print (Fora ''PORTABILITY'')])"
  using C8_outside_window [of sunday_10h world_ok]
        C8_outside_window [of sunday_10h world_vpn_down]
        C8_outside_window [of sunday_10h world_query_fails]
        janela_sunday_10h
  by simp

text \<open>
  What \<open>run_query\<close> does with the engine, on every path: once the engine is created,
  it is disposed exactly when the call returns the frame.
\<close>

lemma retries_events:
  "set (retries host port interval n) \<subseteq> {Connect host port, Print Inacessivel, Sleep interval}"
  by (induction n) (auto simp: retries_def)

lemma wait_for_vpn_and_db_engine_free:
  assumes "wait_for_vpn_and_db w host port interval = Some (r, tr)"
  shows "CreateEngine \<notin> set tr \<and> Dispose \<notin> set tr"
proof -
  from wait_for_vpn_and_db_Some [OF assms] obtain n where
    "tr = Print (Verificando host port) # retries host port interval n @ [Connect host port, Print Acessivel]
     \<or> tr = Print (Verificando host port) # retries host port interval n @ [Connect host port]"
    by blast
  then show ?thesis
    using retries_events [of host port interval n] by auto
qed

lemma run_query_disposes_only_on_success:
  assumes "run_query w q = Some (r, tr)" and "CreateEngine \<in> set tr"
  shows "Dispose \<in> set tr \<longleftrightarrow> (\<exists>df. r = Return df)"
proof -
  from run_query_Some [OF assms(1)] obtain r0 tr0 where
    w: "wait_for_vpn_and_db w (db_host w) (db_port w) 900 = Some (r0, tr0)"
    and cases: "(tr = tr0 \<and> (\<exists>e. r = Raise e))
     \<or> (tr = tr0 @ [CreateEngine, Begin] \<and> (\<exists>e. r = Raise e))
     \<or> (tr = tr0 @ [CreateEngine, Begin, ReadSql q, Release] \<and> (\<exists>e. r = Raise e))
     \<or> (tr = tr0 @ [CreateEngine, Begin, ReadSql q, Release, Dispose] \<and> (\<exists>df. r = Return df))"
    by blast
  have free: "CreateEngine \<notin> set tr0" "Dispose \<notin> set tr0"
    using wait_for_vpn_and_db_engine_free [OF w] by simp_all
  from cases free assms(2) show ?thesis by auto
qed

text \<open>
  Claim C9 says that what \<open>run_query\<close> acquires is released on every exit path,
  the one where the query raises included. Evaluated where \<open>pd.read_sql\<close> raises, the
  call leaves with the exception after the \<open>with\<close> block has given the connection
  back, and \<open>engine.dispose()\<close> is never reached.
\<close>

theorem C9_engine_not_disposed_on_failure:
  "run_query world_query_fails SQL_NOVO =
     Some (Raise (PyException ''ProgrammingError''),
           [Print (Verificando ''db'' 5432),
            Connect ''db'' 5432, Print Inacessivel, Sleep 900,
            Connect ''db'' 5432, Print Inacessivel, Sleep 900,
            Connect ''db'' 5432, Print Acessivel,
            CreateEngine, Begin, ReadSql SQL_NOVO, Release]) \<and>
   Dispose \<notin> set [Print (Verificando ''db'' 5432),
            Connect ''db'' 5432, Print Inacessivel, Sleep 900,
            Connect ''db'' 5432, Print Inacessivel, Sleep 900,
            Connect ''db'' 5432, Print Acessivel,
            CreateEngine, Begin, ReadSql SQL_NOVO, Release]"
  using run_query_world_query_fails [of SQL_NOVO] by simp

subsection \<open>Rejected deliveries\<close>

lemma post_chat_message_rejected:
  assumes "slack_post w = Return r" and "rejected r"
  shows "post_chat_message w channel title b = (Return (), [Post channel title b, Print SlackErro])"
  using assms
  by (auto simp: post_chat_message_def rejected_def split: res.splits)

lemma deliveries_Cons_Print: "deliveries (Print l # tr) = deliveries tr"
  by (simp add: deliveries_def)

lemma job_esteira_rejected:
  assumes "dentro_da_janela_execucao agora"
    and "run_query w q = Some (Return df, tr0)" and "message_body df = Return b"
    and "slack_post w = Return r" and "rejected r"
  shows "\<exists>tr. job_esteira tag q produto_label w agora = Some (Return (), tr) \<and>
              Print SlackErro \<in> set tr \<and> deliveries tr = 1 \<and> outcome tr = Some Succeeded"
proof -
  let ?p = "Post ''#monitoramento-privado'' produto_label b"
  let ?tr = "Print (Iniciando tag) # tr0 @ [?p, Print SlackErro] @ [Print (Enviado tag)]"
  have d0: "deliveries tr0 = 0" using assms(2) by (rule run_query_deliveries)
  have post: "post_to_slack w df produto_label = (Return (), [?p, Print SlackErro])"
    using assms(3-5) by (simp add: post_to_slack_def post_chat_message_rejected)
  have "job_esteira tag q produto_label w agora = Some (Return (), ?tr)"
    using assms(1,2) post by (simp add: job_esteira_def)
  moreover have "Print SlackErro \<in> set ?tr" by simp
  moreover have "deliveries ?tr = 1"
    using d0 by (simp add: deliveries_Cons_Print deliveries_append) (simp add: deliveries_def)
  moreover have "outcome ?tr = Some Succeeded"
    using outcome_snoc [of "Print (Iniciando tag) # tr0 @ [?p, Print SlackErro]" "Enviado tag"]
    by simp
  ultimately show ?thesis by blast
qed

lemma job_resumo_rejected:
  assumes "run_query w SQL_RESUMO = Some (Return df, tr0)" and "message_body df = Return b"
    and "slack_post w = Return r" and "rejected r"
  shows "\<exists>tr. job_resumo w agora = Some (Return (), tr) \<and>
              Print SlackErro \<in> set tr \<and> deliveries tr = 1 \<and> outcome tr = Some Succeeded"
proof -
  let ?p = "Post ''#geral-ops-privado'' ''Resumo Diario Privado'' b"
  let ?tr = "Print (Iniciando ''RESUMO'') # tr0 @ [?p, Print SlackErro] @ [Print (Enviado ''RESUMO'')]"
  have d0: "deliveries tr0 = 0" using assms(1) by (rule run_query_deliveries)
  have post: "send_resumo_to_slack w df = (Return (), [?p, Print SlackErro])"
    using assms(2-4) by (simp add: send_resumo_to_slack_def post_chat_message_rejected)
  have "job_resumo w agora = Some (Return (), ?tr)"
    using assms(1) post by (simp add: job_resumo_def)
  moreover have "Print SlackErro \<in> set ?tr" by simp
  moreover have "deliveries ?tr = 1"
    using d0 by (simp add: deliveries_Cons_Print deliveries_append) (simp add: deliveries_def)
  moreover have "outcome ?tr = Some Succeeded"
    using outcome_snoc [of "Print (Iniciando ''RESUMO'') # tr0 @ [?p, Print SlackErro]" "Enviado ''RESUMO''"]
    by simp
  ultimately show ?thesis by blast
qed

text \<open>
  What every job does with a rejected payload: the rejection is printed, the run makes
  exactly one delivery attempt, and the job goes on to print its success line.
\<close>

lemma jobs_rejected_delivery:
  "(dentro_da_janela_execucao agora \<and> run_query w SQL_NOVO = Some (Return df, tr0) \<and>
    message_body df = Return b \<and> slack_post w = Return r \<and> rejected r \<longrightarrow>
      (\<exists>tr. job_novo w agora = Some (Return (), tr) \<and> Print SlackErro \<in> set tr \<and>
            deliveries tr = 1 \<and> outcome tr = Some Succeeded)) \<and>
   (dentro_da_janela_execucao agora \<and> run_query w SQL_REFIN = Some (Return df, tr0) \<and>
    message_body df = Return b \<and> slack_post w = Return r \<and> rejected r \<longrightarrow>
      (\<exists>tr. job_refin w agora = Some (Return (), tr) \<and> Print SlackErro \<in> set tr \<and>
            deliveries tr = 1 \<and> outcome tr = Some Succeeded)) \<and>
   (dentro_da_janela_execucao agora \<and> run_query w SQL_PORTABILITY = Some (Return df, tr0) \<and>
    message_body df = Return b \<and> slack_post w = Return r \<and> rejected r \<longrightarrow>
      (\<exists>tr. job_portability w agora = Some (Return (), tr) \<and> Print SlackErro \<in> set tr \<and>
            deliveries tr = 1 \<and> outcome tr = Some Succeeded)) \<and>
   (run_query w SQL_RESUMO = Some (Return df, tr0) \<and>
    message_body df = Return b \<and> slack_post w = Return r \<and> rejected r \<longrightarrow>
      (\<exists>tr. job_resumo w agora = Some (Return (), tr) \<and> Print SlackErro \<in> set tr \<and>
            deliveries tr = 1 \<and> outcome tr = Some Succeeded))"
  unfolding job_novo_def job_refin_def job_portability_def
  using job_esteira_rejected [of agora w _ df tr0 b r] job_resumo_rejected [of w df tr0 b r agora]
  by blast

lemma run_query_world_slack_rejects:
  "run_query world_slack_rejects q =
     Some (Return [Return ''CREATED 3 1.500,00''],
           [Print (Verificando ''db'' 5432),
            Connect ''db'' 5432, Print Inacessivel, Sleep 900,
            Connect ''db'' 5432, Print Inacessivel, Sleep 900,
            Connect ''db'' 5432, Print Acessivel,
            CreateEngine, Begin, ReadSql q, Release, Dispose])"
  using run_query_after_wait [of world_slack_rejects 2 q]
  by (simp add: world_slack_rejects_def world_ok_def vpn_after_two_upto vpn_after_two_2 retries_2)

lemma rejected_slack_rejects: "rejected slack_rejects"
  by (simp add: rejected_def slack_rejects_def)

lemma job_novo_world_slack_rejects:
  "job_novo world_slack_rejects tuesday_10h =
     Some (Return (),
           [Print (Iniciando ''NOVO''),
            Print (Verificando ''db'' 5432),
            Connect ''db'' 5432, Print Inacessivel, Sleep 900,
            Connect ''db'' 5432, Print Inacessivel, Sleep 900,
            Connect ''db'' 5432, Print Acessivel,
            CreateEngine, Begin, ReadSql SQL_NOVO, Release, Dispose,
            Post ''#monitoramento-privado'' ''Produto NOVO (Consignado Privado)''
              (Linhas [''CREATED 3 1.500,00'']),
            Print SlackErro,
            Print (Enviado ''NOVO'')])"
proof -
  have "slack_post world_slack_rejects = Return slack_rejects"
    by (simp add: world_slack_rejects_def)
  then have "post_to_slack world_slack_rejects [Return ''CREATED 3 1.500,00'']
          ''Produto NOVO (Consignado Privado)'' =
        (Return (), [Post ''#monitoramento-privado'' ''Produto NOVO (Consignado Privado)''
              (Linhas [''CREATED 3 1.500,00'']), Print SlackErro])"
    by (simp add: post_to_slack_def message_body_def post_chat_message_rejected rejected_slack_rejects)
  then show ?thesis
    by (simp add: job_novo_def job_esteira_def janela_tuesday_10h run_query_world_slack_rejects)
qed

text \<open>
  The sibling path: when the delivery raises instead (a timeout, a body that is not
  JSON), the same job logs the run as Failed.
\<close>

lemma job_esteira_delivery_raises:
  assumes "dentro_da_janela_execucao agora"
    and "run_query w q = Some (Return df, tr0)"
    and "post_to_slack w df produto_label = (Raise e, tr')" and "is_Exception e"
  shows "job_esteira tag q produto_label w agora =
           Some (Return (), Print (Iniciando tag) # tr0 @ tr' @ [Print (Erro tag e)]) \<and>
         outcome (Print (Iniciando tag) # tr0 @ tr' @ [Print (Erro tag e)]) = Some (Failed e)"
  using assms
  by (simp add: job_esteira_def except_Exception_def outcome_Cons_append_snoc)

lemma post_chat_message_not_json:
  assumes "slack_post w = Return r" and "resp_ok r" and "resp_json r = Raise e"
  shows "post_chat_message w channel title b = (Raise e, [Post channel title b])"
  using assms by (simp add: post_chat_message_def)

text \<open>
  Claim C7 says that a run whose payload the sink rejects is reported as Failed.
  Evaluated inside the window with Slack answering \<open>{"ok": false}\<close>: the rejection is
  printed and one delivery attempt is made, as the claim says, but \<open>post_to_slack\<close>
  returns normally, so \<open>job_novo\<close> prints its success line after the error line and
  the outcome it logs is Succeeded.
\<close>

theorem C7_rejected_reported_as_success:
  "slack_post world_slack_rejects = Return slack_rejects \<and>
   resp_ok slack_rejects \<and>
   resp_json slack_rejects =
     Return (JDict [(''ok'', JBool False), (''error'', JStr ''channel_not_found'')]) \<and>
   job_novo world_slack_rejects tuesday_10h =
     Some (Return (),
           [Print (Iniciando ''NOVO''),
            Print (Verificando ''db'' 5432),
            Connect ''db'' 5432, Print Inacessivel, Sleep 900,
            Connect ''db'' 5432, Print Inacessivel, Sleep 900,
            Connect ''db'' 5432, Print Acessivel,
            CreateEngine, Begin, ReadSql SQL_NOVO, Release, Dispose,
            Post ''#monitoramento-privado'' ''Produto NOVO (Consignado Privado)''
              (Linhas [''CREATED 3 1.500,00'']),
            Print SlackErro,
            Print (Enviado ''NOVO'')]) \<and>
   map_option (outcome \<circ> snd) (job_novo world_slack_rejects tuesday_10h) =
     Some (Some Succeeded)"
proof -
  have "slack_post world_slack_rejects = Return slack_rejects"
    by (simp add: world_slack_rejects_def)
  then show ?thesis
    by (simp add: job_novo_world_slack_rejects slack_rejects_def)
qed

subsection \<open>The job boundary\<close>

lemma except_Exception_Raise:
  "except_Exception tag e tr = (Raise e', tr') \<Longrightarrow> \<not> is_Exception e'"
  by (auto simp: except_Exception_def split: if_splits)

lemma except_Exception_Return:
  "except_Exception tag e tr = (Return u, tr') \<Longrightarrow> tr' = tr @ [Print (Erro tag e)]"
  by (auto simp: except_Exception_def split: if_splits)

lemma job_esteira_escapes:
  "job_esteira tag q produto_label w agora = Some (Raise e, tr) \<Longrightarrow> \<not> is_Exception e"
  by (auto simp: job_esteira_def split: if_splits option.splits prod.splits res.splits
           dest: except_Exception_Raise)

lemma job_resumo_escapes:
  "job_resumo w agora = Some (Raise e, tr) \<Longrightarrow> \<not> is_Exception e"
  by (auto simp: job_resumo_def split: if_splits option.splits prod.splits res.splits
           dest: except_Exception_Raise)

lemma job_esteira_Return:
  assumes "job_esteira tag q produto_label w agora = Some (Return (), tr)"
  shows "\<exists>tr0 l. tr = tr0 @ [Print l] \<and> outcome_of_log l \<noteq> None"
proof (cases "dentro_da_janela_execucao agora")
  case False
  with assms have "tr = [] @ [Print (Fora tag)]" by (simp add: job_esteira_def)
  then show ?thesis by (metis outcome_of_log.simps(1) option.distinct(1))
next
  case True
  show ?thesis
  proof (cases "run_query w q")
    case None
    with True assms show ?thesis by (simp add: job_esteira_def)
  next
    case (Some p)
    obtain r tr0 where p: "p = (r, tr0)" by (cases p)
    show ?thesis
    proof (cases r)
      case (Raise e)
      with True Some p assms
      have "except_Exception tag e (Print (Iniciando tag) # tr0) = (Return (), tr)"
        by (simp add: job_esteira_def)
      then have "tr = (Print (Iniciando tag) # tr0) @ [Print (Erro tag e)]"
        by (rule except_Exception_Return)
      then show ?thesis by (metis outcome_of_log.simps(3) option.distinct(1))
    next
      case (Return df)
      obtain r' tr' where q: "post_to_slack w df produto_label = (r', tr')"
        by (cases "post_to_slack w df produto_label")
      show ?thesis
      proof (cases r')
        case (Raise e)
        with True Some p Return q assms
        have "except_Exception tag e (Print (Iniciando tag) # tr0 @ tr') = (Return (), tr)"
          by (simp add: job_esteira_def)
        then have "tr = (Print (Iniciando tag) # tr0 @ tr') @ [Print (Erro tag e)]"
          by (rule except_Exception_Return)
        then show ?thesis by (metis outcome_of_log.simps(3) option.distinct(1))
      next
        case (Return u)
        with True Some p \<open>r = Return df\<close> q assms
        have "tr = (Print (Iniciando tag) # tr0 @ tr') @ [Print (Enviado tag)]"
          by (simp add: job_esteira_def)
        then show ?thesis by (metis outcome_of_log.simps(2) option.distinct(1))
      qed
    qed
  qed
qed

lemma job_esteira_outcome:
  assumes "job_esteira tag q produto_label w agora = Some (Return (), tr)"
  shows "\<exists>oc. outcome tr = Some oc"
proof -
  from job_esteira_Return [OF assms] obtain tr0 l
    where "tr = tr0 @ [Print l]" "outcome_of_log l \<noteq> None" by blast
  then show ?thesis by (simp add: outcome_snoc)
qed

lemma job_resumo_Return:
  assumes "job_resumo w agora = Some (Return (), tr)"
  shows "\<exists>tr0 l. tr = tr0 @ [Print l] \<and> outcome_of_log l \<noteq> None"
proof (cases "run_query w SQL_RESUMO")
  case None
  with assms show ?thesis by (simp add: job_resumo_def)
next
  case (Some p)
  obtain r tr0 where p: "p = (r, tr0)" by (cases p)
  show ?thesis
  proof (cases r)
    case (Raise e)
    with Some p assms
    have "except_Exception ''RESUMO'' e (Print (Iniciando ''RESUMO'') # tr0) = (Return (), tr)"
      by (simp add: job_resumo_def)
    then have "tr = (Print (Iniciando ''RESUMO'') # tr0) @ [Print (Erro ''RESUMO'' e)]"
      by (rule except_Exception_Return)
    then show ?thesis by (metis outcome_of_log.simps(3) option.distinct(1))
  next
    case (Return df)
    obtain r' tr' where q: "send_resumo_to_slack w df = (r', tr')"
      by (cases "send_resumo_to_slack w df")
    show ?thesis
    proof (cases r')
      case (Raise e)
      with Some p Return q assms
      have "except_Exception ''RESUMO'' e (Print (Iniciando ''RESUMO'') # tr0 @ tr') = (Return (), tr)"
        by (simp add: job_resumo_def)
      then have "tr = (Print (Iniciando ''RESUMO'') # tr0 @ tr') @ [Print (Erro ''RESUMO'' e)]"
        by (rule except_Exception_Return)
      then show ?thesis by (metis outcome_of_log.simps(3) option.distinct(1))
    next
      case (Return u)
      with Some p \<open>r = Return df\<close> q assms
      have "tr = (Print (Iniciando ''RESUMO'') # tr0 @ tr') @ [Print (Enviado ''RESUMO'')]"
        by (simp add: job_resumo_def)
      then show ?thesis by (metis outcome_of_log.simps(2) option.distinct(1))
    qed
  qed
qed

lemma job_resumo_outcome:
  assumes "job_resumo w agora = Some (Return (), tr)"
  shows "\<exists>oc. outcome tr = Some oc"
proof -
  from job_resumo_Return [OF assms] obtain tr0 l
    where "tr = tr0 @ [Print l]" "outcome_of_log l \<noteq> None" by blast
  then show ?thesis by (simp add: outcome_snoc)
qed

lemma run_query_returns:
  assumes "answered w n" and "db_answers w"
  shows "run_query w q \<noteq> None"
proof (cases "sock w n")
  case Connected
  from assms(2) have "engine_begin w \<noteq> None" "read_sql w q \<noteq> None"
    by (simp_all add: db_answers_def)
  then obtain eb rs where "engine_begin w = Some eb" "read_sql w q = Some rs"
    by (cases "engine_begin w"; cases "read_sql w q") simp_all
  moreover from assms(1) Connected have "run_query w q =
     (case engine_begin w of
        None \<Rightarrow> None
      | Some (Raise e) \<Rightarrow>
          Some (Raise e,
                Print (Verificando (db_host w) (db_port w)) #
                retries (db_host w) (db_port w) 900 n @
                [Connect (db_host w) (db_port w), Print Acessivel, CreateEngine, Begin])
      | Some (Return c) \<Rightarrow>
          (case read_sql w q of
             None \<Rightarrow> None
           | Some (Raise e) \<Rightarrow>
               Some (Raise e,
                     Print (Verificando (db_host w) (db_port w)) #
                     retries (db_host w) (db_port w) 900 n @
                     [Connect (db_host w) (db_port w), Print Acessivel,
                      CreateEngine, Begin, ReadSql q, Release])
           | Some (Return df) \<Rightarrow>
               Some (Return df,
                     Print (Verificando (db_host w) (db_port w)) #
                     retries (db_host w) (db_port w) 900 n @
                     [Connect (db_host w) (db_port w), Print Acessivel,
                      CreateEngine, Begin, ReadSql q, Release, Dispose])))"
    by (intro run_query_after_wait) (simp_all add: answered_def)
  ultimately show ?thesis by (simp split: res.splits)
next
  case (ConnFails e)
  with assms have "wait_for_vpn_and_db w (db_host w) (db_port w) 900 =
      Some (Raise e, [Print (Verificando (db_host w) (db_port w))] @
                     retries (db_host w) (db_port w) 900 n @
                     [Connect (db_host w) (db_port w)])"
    using wait_loop_first_answer [of "sock w" n "db_host w" "db_port w" 900
        "[Print (Verificando (db_host w) (db_port w))]"]
    by (simp add: wait_for_vpn_and_db_def answered_def)
  then show ?thesis by (simp add: run_query_def)
qed

lemma run_query_waits:
  assumes "\<forall>k. unreachable (sock w k)"
  shows "run_query w q = None"
  using assms by (simp add: run_query_def wait_for_vpn_and_db_def wait_loop_never)

lemma run_query_blocks:
  assumes "unreachable_upto (sock w) n" and "sock w n = Connected" and "db_blocks w"
  shows "run_query w q = None"
  using assms(3) run_query_after_wait [OF assms(1,2), of q]
  by (auto simp: db_blocks_def)

lemma run_query_raises_Exception:
  assumes "run_query w q = Some (Raise e, tr)" and "only_Exceptions w"
  shows "is_Exception e"
proof -
  from run_query_Some [OF assms(1)] obtain r0 tr0 where
    w: "wait_for_vpn_and_db w (db_host w) (db_port w) 900 = Some (r0, tr0)"
    and cases: "r0 = Raise e \<or> engine_begin w = Some (Raise e) \<or> read_sql w q = Some (Raise e)"
    by auto
  from cases show ?thesis
  proof (elim disjE)
    assume "r0 = Raise e"
    with wait_for_vpn_and_db_Some [OF w] obtain m where "sock w m = ConnFails e" by auto
    with assms(2) show ?thesis by (auto simp: only_Exceptions_def)
  next
    assume "engine_begin w = Some (Raise e)"
    with assms(2) show ?thesis by (auto simp: only_Exceptions_def)
  next
    assume "read_sql w q = Some (Raise e)"
    with assms(2) show ?thesis by (auto simp: only_Exceptions_def)
  qed
qed

lemma run_query_frame:
  assumes "run_query w q = Some (Return df, tr)"
  shows "read_sql w q = Some (Return df)"
  using run_query_Some [OF assms] by auto

lemma format_rows_Raise: "format_rows df = Raise e \<Longrightarrow> Raise e \<in> set df"
  by (induction df rule: format_rows.induct) (auto split: res.splits)

lemma message_body_Raise: "message_body df = Raise e \<Longrightarrow> Raise e \<in> set df"
  by (auto simp: message_body_def format_rows_Raise split: if_splits res.splits)

lemma dict_get_Raise: "dict_get j k d = Raise e \<Longrightarrow> is_Exception e"
  by (cases j) auto

lemma post_chat_message_raises_Exception:
  assumes "post_chat_message w channel title b = (Raise e, tr)" and "only_Exceptions w"
  shows "is_Exception e"
proof (cases "slack_post w")
  case (Raise x)
  with assms show ?thesis by (auto simp: post_chat_message_def only_Exceptions_def)
next
  case (Return r)
  note post = this
  show ?thesis
  proof (cases "resp_ok r")
    case False
    with assms post show ?thesis by (simp add: post_chat_message_def)
  next
    case True
    show ?thesis
    proof (cases "resp_json r")
      case (Raise x)
      with assms post True show ?thesis
        by (auto simp: post_chat_message_def only_Exceptions_def)
    next
      case (Return j)
      show ?thesis
      proof (cases "dict_get j ''ok'' JNull")
        case (Raise x)
        with assms post True \<open>resp_json r = Return j\<close> have "x = e"
          by (simp add: post_chat_message_def)
        with Raise show ?thesis by (auto dest: dict_get_Raise)
      next
        case (Return v)
        with assms post True \<open>resp_json r = Return j\<close> show ?thesis
          by (simp add: post_chat_message_def split: if_splits)
      qed
    qed
  qed
qed

lemma post_to_slack_raises_Exception:
  assumes "post_to_slack w df produto_label = (Raise e, tr)" and "only_Exceptions w"
    and "read_sql w q = Some (Return df)"
  shows "is_Exception e"
proof (cases "message_body df")
  case (Raise x)
  with assms(1) have "x = e" by (simp add: post_to_slack_def)
  with Raise have "Raise e \<in> set df" by (simp add: message_body_Raise)
  with assms(2,3) show ?thesis unfolding only_Exceptions_def by blast
next
  case (Return b)
  with assms(1) have "post_chat_message w ''#monitoramento-privado'' produto_label b = (Raise e, tr)"
    by (simp add: post_to_slack_def)
  then show ?thesis using assms(2) by (rule post_chat_message_raises_Exception)
qed

lemma send_resumo_to_slack_raises_Exception:
  assumes "send_resumo_to_slack w df = (Raise e, tr)" and "only_Exceptions w"
    and "read_sql w q = Some (Return df)"
  shows "is_Exception e"
proof (cases "message_body df")
  case (Raise x)
  with assms(1) have "x = e" by (simp add: send_resumo_to_slack_def)
  with Raise have "Raise e \<in> set df" by (simp add: message_body_Raise)
  with assms(2,3) show ?thesis unfolding only_Exceptions_def by blast
next
  case (Return b)
  with assms(1) have
    "post_chat_message w ''#geral-ops-privado'' ''Resumo Diario Privado'' b = (Raise e, tr)"
    by (simp add: send_resumo_to_slack_def)
  then show ?thesis using assms(2) by (rule post_chat_message_raises_Exception)
qed

text \<open>An exception that leaves a job was raised by fetching or by delivering.\<close>

lemma job_esteira_Raise:
  assumes "job_esteira tag q produto_label w agora = Some (Raise e, tr)"
  shows "(\<exists>tr0. run_query w q = Some (Raise e, tr0)) \<or>
         (\<exists>df tr0 tr'. run_query w q = Some (Return df, tr0) \<and>
                       post_to_slack w df produto_label = (Raise e, tr'))"
proof (cases "dentro_da_janela_execucao agora")
  case False
  with assms show ?thesis by (simp add: job_esteira_def)
next
  case True
  show ?thesis
  proof (cases "run_query w q")
    case None
    with True assms show ?thesis by (simp add: job_esteira_def)
  next
    case (Some p)
    obtain r tr0 where p: "p = (r, tr0)" by (cases p)
    show ?thesis
    proof (cases r)
      case (Raise x)
      with True Some p assms have "x = e"
        by (auto simp: job_esteira_def except_Exception_def split: if_splits)
      with Raise Some p show ?thesis by simp
    next
      case (Return df)
      obtain r' tr' where q: "post_to_slack w df produto_label = (r', tr')"
        by (cases "post_to_slack w df produto_label")
      show ?thesis
      proof (cases r')
        case (Raise x)
        with True Some p Return q assms have "x = e"
          by (auto simp: job_esteira_def except_Exception_def split: if_splits)
        with Raise Some p Return q show ?thesis by simp
      next
        case (Return u)
        with True Some p \<open>r = Return df\<close> q assms show ?thesis
          by (simp add: job_esteira_def)
      qed
    qed
  qed
qed

lemma job_resumo_Raise:
  assumes "job_resumo w agora = Some (Raise e, tr)"
  shows "(\<exists>tr0. run_query w SQL_RESUMO = Some (Raise e, tr0)) \<or>
         (\<exists>df tr0 tr'. run_query w SQL_RESUMO = Some (Return df, tr0) \<and>
                       send_resumo_to_slack w df = (Raise e, tr'))"
proof (cases "run_query w SQL_RESUMO")
  case None
  with assms show ?thesis by (simp add: job_resumo_def)
next
  case (Some p)
  obtain r tr0 where p: "p = (r, tr0)" by (cases p)
  show ?thesis
  proof (cases r)
    case (Raise x)
    with Some p assms have "x = e"
      by (auto simp: job_resumo_def except_Exception_def split: if_splits)
    with Raise Some p show ?thesis by simp
  next
    case (Return df)
    obtain r' tr' where q: "send_resumo_to_slack w df = (r', tr')"
      by (cases "send_resumo_to_slack w df")
    show ?thesis
    proof (cases r')
      case (Raise x)
      with Some p Return q assms have "x = e"
        by (auto simp: job_resumo_def except_Exception_def split: if_splits)
      with Raise Some p Return q show ?thesis by simp
    next
      case (Return u)
      with Some p \<open>r = Return df\<close> q assms show ?thesis
        by (simp add: job_resumo_def)
    qed
  qed
qed

lemma job_esteira_never_raises:
  assumes "only_Exceptions w"
  shows "job_esteira tag q produto_label w agora \<noteq> Some (Raise e, tr)"
proof
  assume raised: "job_esteira tag q produto_label w agora = Some (Raise e, tr)"
  then have "\<not> is_Exception e" by (rule job_esteira_escapes)
  moreover from job_esteira_Raise [OF raised] have "is_Exception e"
  proof (elim disjE exE conjE)
    fix tr0 assume "run_query w q = Some (Raise e, tr0)"
    then show ?thesis using assms by (rule run_query_raises_Exception)
  next
    fix df tr0 tr'
    assume "run_query w q = Some (Return df, tr0)"
      and post: "post_to_slack w df produto_label = (Raise e, tr')"
    then have "read_sql w q = Some (Return df)" by (simp add: run_query_frame)
    with post assms show ?thesis by (rule post_to_slack_raises_Exception)
  qed
  ultimately show False by simp
qed

lemma job_resumo_never_raises:
  assumes "only_Exceptions w"
  shows "job_resumo w agora \<noteq> Some (Raise e, tr)"
proof
  assume raised: "job_resumo w agora = Some (Raise e, tr)"
  then have "\<not> is_Exception e" by (rule job_resumo_escapes)
  moreover from job_resumo_Raise [OF raised] have "is_Exception e"
  proof (elim disjE exE conjE)
    fix tr0 assume "run_query w SQL_RESUMO = Some (Raise e, tr0)"
    then show ?thesis using assms by (rule run_query_raises_Exception)
  next
    fix df tr0 tr'
    assume "run_query w SQL_RESUMO = Some (Return df, tr0)"
      and post: "send_resumo_to_slack w df = (Raise e, tr')"
    then have "read_sql w SQL_RESUMO = Some (Return df)" by (simp add: run_query_frame)
    with post assms show ?thesis by (rule send_resumo_to_slack_raises_Exception)
  qed
  ultimately show False by simp
qed

lemma job_esteira_returns:
  assumes "answered w n" and "db_answers w"
  shows "job_esteira tag q produto_label w agora \<noteq> None"
  using run_query_returns [OF assms, of q]
  by (auto simp: job_esteira_def split: option.splits prod.splits res.splits)

lemma job_resumo_returns:
  assumes "answered w n" and "db_answers w"
  shows "job_resumo w agora \<noteq> None"
  using run_query_returns [OF assms, of SQL_RESUMO]
  by (auto simp: job_resumo_def split: option.splits prod.splits res.splits)

lemma job_esteira_returns_outcome:
  assumes "answered w n" and "db_answers w" and "only_Exceptions w"
  shows "\<exists>tr oc. job_esteira tag q produto_label w agora = Some (Return (), tr) \<and>
                 outcome tr = Some oc"
proof -
  from job_esteira_returns [OF assms(1,2)] obtain r tr
    where run: "job_esteira tag q produto_label w agora = Some (r, tr)" by fastforce
  show ?thesis
  proof (cases r)
    case (Raise e)
    with run job_esteira_never_raises [OF assms(3)] show ?thesis by blast
  next
    case (Return u)
    with run have "job_esteira tag q produto_label w agora = Some (Return (), tr)" by simp
    then show ?thesis using job_esteira_outcome by blast
  qed
qed

lemma job_resumo_returns_outcome:
  assumes "answered w n" and "db_answers w" and "only_Exceptions w"
  shows "\<exists>tr oc. job_resumo w agora = Some (Return (), tr) \<and> outcome tr = Some oc"
proof -
  from job_resumo_returns [OF assms(1,2)] obtain r tr
    where run: "job_resumo w agora = Some (r, tr)" by fastforce
  show ?thesis
  proof (cases r)
    case (Raise e)
    with run job_resumo_never_raises [OF assms(3)] show ?thesis by blast
  next
    case (Return u)
    with run have "job_resumo w agora = Some (Return (), tr)" by simp
    then show ?thesis using job_resumo_outcome by blast
  qed
qed

lemma job_esteira_waits:
  assumes "dentro_da_janela_execucao agora"
    and "(\<forall>k. unreachable (sock w k)) \<or>
         (\<exists>n. unreachable_upto (sock w) n \<and> sock w n = Connected \<and> db_blocks w)"
  shows "job_esteira tag q produto_label w agora = None"
proof -
  from assms(2) have "run_query w q = None"
    using run_query_waits run_query_blocks by blast
  with assms(1) show ?thesis by (simp add: job_esteira_def)
qed

lemma job_resumo_waits:
  assumes "(\<forall>k. unreachable (sock w k)) \<or>
         (\<exists>n. unreachable_upto (sock w) n \<and> sock w n = Connected \<and> db_blocks w)"
  shows "job_resumo w agora = None"
proof -
  from assms have "run_query w SQL_RESUMO = None"
    using run_query_waits run_query_blocks by blast
  then show ?thesis by (simp add: job_resumo_def)
qed

lemma main_superset_slack_down:
  "main superset_slack_down 5840 =
     (Raise (SlackApiError ''channel_not_found''),
      [Print Autenticando, HttpLogin,
       Print Buscando, HttpChart (JStr ''jwt'') 5840,
       Print Processando, Print Enviando,
       SdkPost (TotalRegistros 2), Print SdkErro])"
  by (simp add: main_def get_superset_token_def get_chart_data_def processar_def
        enviar_slack_def superset_slack_down_def)


lemma main_propagates:
  "(fst (get_superset_token sw) = Raise x \<longrightarrow> fst (main sw chart_id) = Raise x) \<and>
   (get_superset_token sw = (Return token, tr1) \<and>
    fst (get_chart_data sw token chart_id) = Raise x \<longrightarrow> fst (main sw chart_id) = Raise x) \<and>
   (get_superset_token sw = (Return token, tr1) \<and>
    get_chart_data sw token chart_id = (Return chart_data, tr2) \<and>
    processar chart_data = Raise x \<longrightarrow> fst (main sw chart_id) = Raise x) \<and>
   (get_superset_token sw = (Return token, tr1) \<and>
    get_chart_data sw token chart_id = (Return chart_data, tr2) \<and>
    processar chart_data = Return texto \<and>
    fst (enviar_slack sw texto) = Raise x \<longrightarrow> fst (main sw chart_id) = Raise x)"
proof (intro conjI impI)
  assume "fst (get_superset_token sw) = Raise x"
  then show "fst (main sw chart_id) = Raise x"
    by (cases "get_superset_token sw") (simp add: main_def)
next
  assume "get_superset_token sw = (Return token, tr1) \<and>
    fst (get_chart_data sw token chart_id) = Raise x"
  then show "fst (main sw chart_id) = Raise x"
    by (cases "get_chart_data sw token chart_id") (simp add: main_def)
next
  assume "get_superset_token sw = (Return token, tr1) \<and>
    get_chart_data sw token chart_id = (Return chart_data, tr2) \<and>
    processar chart_data = Raise x"
  then show "fst (main sw chart_id) = Raise x"
    by (simp add: main_def)
next
  assume "get_superset_token sw = (Return token, tr1) \<and>
    get_chart_data sw token chart_id = (Return chart_data, tr2) \<and>
    processar chart_data = Return texto \<and>
    fst (enviar_slack sw texto) = Raise x"
  then show "fst (main sw chart_id) = Raise x"
    by (cases "enviar_slack sw texto") (simp add: main_def)
qed

text \<open>
  Claim C1, as the code has it. For each of the four scheduled jobs: an exception that
  leaves the job is never an \<open>Exception\<close>; a run that returns has logged one of the
  three outcomes; the run comes back once a connection attempt is answered and the
  database calls come back; when, besides, everything raised is an \<open>Exception\<close>, it
  comes back by returning, with an outcome logged; and it does not come back while the
  reachability wait goes on, nor when a database call blocks (a windowed job inside
  its window, the daily summary always). The Superset script has no such boundary:
  \<open>main\<close> raises whatever its login, its chart request, \<open>processar\<close> or
  \<open>enviar_slack\<close> raises, and \<open>enviar_slack\<close> raises whatever the Slack client
  raises.
\<close>

theorem C1_job_boundary:
  "(\<forall>job \<in> set scheduled_jobs.
      (\<forall>e tr. job w agora = Some (Raise e, tr) \<longrightarrow> \<not> is_Exception e) \<and>
      (\<forall>tr. job w agora = Some (Return (), tr) \<longrightarrow> (\<exists>oc. outcome tr = Some oc)) \<and>
      (answered w n \<and> db_answers w \<longrightarrow> job w agora \<noteq> None) \<and>
      (answered w n \<and> db_answers w \<and> only_Exceptions w \<longrightarrow>
         (\<exists>tr oc. job w agora = Some (Return (), tr) \<and> outcome tr = Some oc)) \<and>
      (dentro_da_janela_execucao agora \<and> (\<forall>k. unreachable (sock w k)) \<longrightarrow>
         job w agora = None) \<and>
      (dentro_da_janela_execucao agora \<and> unreachable_upto (sock w) n \<and>
       sock w n = Connected \<and> db_blocks w \<longrightarrow> job w agora = None)) \<and>
   ((\<forall>k. unreachable (sock w k)) \<longrightarrow> job_resumo w agora = None) \<and>
   (unreachable_upto (sock w) n \<and> sock w n = Connected \<and> db_blocks w \<longrightarrow>
      job_resumo w agora = None) \<and>
   (fst (get_superset_token sw) = Raise x \<longrightarrow> fst (main sw chart_id) = Raise x) \<and>
   (get_superset_token sw = (Return token, tr1) \<and>
    fst (get_chart_data sw token chart_id) = Raise x \<longrightarrow> fst (main sw chart_id) = Raise x) \<and>
   (get_superset_token sw = (Return token, tr1) \<and>
    get_chart_data sw token chart_id = (Return chart_data, tr2) \<and>
    processar chart_data = Raise x \<longrightarrow> fst (main sw chart_id) = Raise x) \<and>
   (get_superset_token sw = (Return token, tr1) \<and>
    get_chart_data sw token chart_id = (Return chart_data, tr2) \<and>
    processar chart_data = Return texto \<and>
    fst (enviar_slack sw texto) = Raise x \<longrightarrow> fst (main sw chart_id) = Raise x) \<and>
   (chat sw = Some x \<longrightarrow> fst (enviar_slack sw texto) = Raise x)"
proof -
  have E: "(\<forall>e tr. job_esteira tag q l w agora = Some (Raise e, tr) \<longrightarrow> \<not> is_Exception e) \<and>
      (\<forall>tr. job_esteira tag q l w agora = Some (Return (), tr) \<longrightarrow> (\<exists>oc. outcome tr = Some oc)) \<and>
      (answered w n \<and> db_answers w \<longrightarrow> job_esteira tag q l w agora \<noteq> None) \<and>
      (answered w n \<and> db_answers w \<and> only_Exceptions w \<longrightarrow>
         (\<exists>tr oc. job_esteira tag q l w agora = Some (Return (), tr) \<and> outcome tr = Some oc)) \<and>
      (dentro_da_janela_execucao agora \<and> (\<forall>k. unreachable (sock w k)) \<longrightarrow>
         job_esteira tag q l w agora = None) \<and>
      (dentro_da_janela_execucao agora \<and> unreachable_upto (sock w) n \<and>
       sock w n = Connected \<and> db_blocks w \<longrightarrow> job_esteira tag q l w agora = None)"
    for tag q l
  proof (intro conjI allI impI)
    fix e tr assume "job_esteira tag q l w agora = Some (Raise e, tr)"
    then show "\<not> is_Exception e" by (rule job_esteira_escapes)
  next
    fix tr assume "job_esteira tag q l w agora = Some (Return (), tr)"
    then show "\<exists>oc. outcome tr = Some oc" by (rule job_esteira_outcome)
  next
    assume "answered w n \<and> db_answers w"
    then show "job_esteira tag q l w agora \<noteq> None"
      using job_esteira_returns [of w n tag q l agora] by blast
  next
    assume "answered w n \<and> db_answers w \<and> only_Exceptions w"
    then show "\<exists>tr oc. job_esteira tag q l w agora = Some (Return (), tr) \<and> outcome tr = Some oc"
      using job_esteira_returns_outcome [of w n tag q l agora] by blast
  next
    assume "dentro_da_janela_execucao agora \<and> (\<forall>k. unreachable (sock w k))"
    then show "job_esteira tag q l w agora = None"
      using job_esteira_waits [of agora w tag q l] by blast
  next
    assume "dentro_da_janela_execucao agora \<and> unreachable_upto (sock w) n \<and>
       sock w n = Connected \<and> db_blocks w"
    then show "job_esteira tag q l w agora = None"
      using job_esteira_waits [of agora w tag q l] by blast
  qed
  have R: "(\<forall>e tr. job_resumo w agora = Some (Raise e, tr) \<longrightarrow> \<not> is_Exception e) \<and>
      (\<forall>tr. job_resumo w agora = Some (Return (), tr) \<longrightarrow> (\<exists>oc. outcome tr = Some oc)) \<and>
      (answered w n \<and> db_answers w \<longrightarrow> job_resumo w agora \<noteq> None) \<and>
      (answered w n \<and> db_answers w \<and> only_Exceptions w \<longrightarrow>
         (\<exists>tr oc. job_resumo w agora = Some (Return (), tr) \<and> outcome tr = Some oc)) \<and>
      (dentro_da_janela_execucao agora \<and> (\<forall>k. unreachable (sock w k)) \<longrightarrow>
         job_resumo w agora = None) \<and>
      (dentro_da_janela_execucao agora \<and> unreachable_upto (sock w) n \<and>
       sock w n = Connected \<and> db_blocks w \<longrightarrow> job_resumo w agora = None)"
  proof (intro conjI allI impI)
    fix e tr assume "job_resumo w agora = Some (Raise e, tr)"
    then show "\<not> is_Exception e" by (rule job_resumo_escapes)
  next
    fix tr assume "job_resumo w agora = Some (Return (), tr)"
    then show "\<exists>oc. outcome tr = Some oc" by (rule job_resumo_outcome)
  next
    assume "answered w n \<and> db_answers w"
    then show "job_resumo w agora \<noteq> None"
      using job_resumo_returns [of w n agora] by blast
  next
    assume "answered w n \<and> db_answers w \<and> only_Exceptions w"
    then show "\<exists>tr oc. job_resumo w agora = Some (Return (), tr) \<and> outcome tr = Some oc"
      using job_resumo_returns_outcome [of w n agora] by blast
  next
    assume "dentro_da_janela_execucao agora \<and> (\<forall>k. unreachable (sock w k))"
    then show "job_resumo w agora = None"
      using job_resumo_waits [of w agora] by blast
  next
    assume "dentro_da_janela_execucao agora \<and> unreachable_upto (sock w) n \<and>
       sock w n = Connected \<and> db_blocks w"
    then show "job_resumo w agora = None"
      using job_resumo_waits [of w agora] by blast
  qed
  have jobs: "\<forall>job \<in> set scheduled_jobs.
      (\<forall>e tr. job w agora = Some (Raise e, tr) \<longrightarrow> \<not> is_Exception e) \<and>
      (\<forall>tr. job w agora = Some (Return (), tr) \<longrightarrow> (\<exists>oc. outcome tr = Some oc)) \<and>
      (answered w n \<and> db_answers w \<longrightarrow> job w agora \<noteq> None) \<and>
      (answered w n \<and> db_answers w \<and> only_Exceptions w \<longrightarrow>
         (\<exists>tr oc. job w agora = Some (Return (), tr) \<and> outcome tr = Some oc)) \<and>
      (dentro_da_janela_execucao agora \<and> (\<forall>k. unreachable (sock w k)) \<longrightarrow>
         job w agora = None) \<and>
      (dentro_da_janela_execucao agora \<and> unreachable_upto (sock w) n \<and>
       sock w n = Connected \<and> db_blocks w \<longrightarrow> job w agora = None)"
  proof (rule ballI)
    fix job assume "job \<in> set scheduled_jobs"
    then have mem: "job = job_novo \<or> job = job_refin \<or> job = job_portability \<or> job = job_resumo"
      by (simp add: scheduled_jobs_def)
    from mem show "(\<forall>e tr. job w agora = Some (Raise e, tr) \<longrightarrow> \<not> is_Exception e) \<and>
      (\<forall>tr. job w agora = Some (Return (), tr) \<longrightarrow> (\<exists>oc. outcome tr = Some oc)) \<and>
      (answered w n \<and> db_answers w \<longrightarrow> job w agora \<noteq> None) \<and>
      (answered w n \<and> db_answers w \<and> only_Exceptions w \<longrightarrow>
         (\<exists>tr oc. job w agora = Some (Return (), tr) \<and> outcome tr = Some oc)) \<and>
      (dentro_da_janela_execucao agora \<and> (\<forall>k. unreachable (sock w k)) \<longrightarrow>
         job w agora = None) \<and>
      (dentro_da_janela_execucao agora \<and> unreachable_upto (sock w) n \<and>
       sock w n = Connected \<and> db_blocks w \<longrightarrow> job w agora = None)"
    proof (elim disjE)
      assume j: "job = job_novo"
      show ?thesis unfolding j job_novo_def by (rule E)
    next
      assume j: "job = job_refin"
      show ?thesis unfolding j job_refin_def by (rule E)
    next
      assume j: "job = job_portability"
      show ?thesis unfolding j job_portability_def by (rule E)
    next
      assume j: "job = job_resumo"
      show ?thesis unfolding j by (rule R)
    qed
  qed
  have resumo_waits: "(\<forall>k. unreachable (sock w k)) \<longrightarrow> job_resumo w agora = None"
    using job_resumo_waits [of w agora] by blast
  have resumo_blocks: "unreachable_upto (sock w) n \<and> sock w n = Connected \<and> db_blocks w \<longrightarrow>
      job_resumo w agora = None"
    using job_resumo_waits [of w agora] by blast
  have sdk: "chat sw = Some x \<longrightarrow> fst (enviar_slack sw texto) = Raise x"
    by (simp add: enviar_slack_def)
  note script = main_propagates [of sw x chart_id token tr1 chart_data tr2 texto]
  show ?thesis
    by (rule conjI [OF jobs conjI [OF resumo_waits conjI [OF resumo_blocks]]])
       (rule conjI [OF script [THEN conjunct1] conjI [OF script [THEN conjunct2, THEN conjunct1]
          conjI [OF script [THEN conjunct2, THEN conjunct2, THEN conjunct1]
          conjI [OF script [THEN conjunct2, THEN conjunct2, THEN conjunct2] sdk]]]])
qed

lemma job_novo_world_interrupted:
  "job_novo world_interrupted tuesday_10h =
     Some (Raise (BaseOnly ''KeyboardInterrupt''),
           [Print (Iniciando ''NOVO''),
            Print (Verificando ''db'' 5432),
            Connect ''db'' 5432, Print Inacessivel, Sleep 900,
            Connect ''db'' 5432, Print Inacessivel, Sleep 900,
            Connect ''db'' 5432, Print Acessivel,
            CreateEngine, Begin, ReadSql SQL_NOVO, Release])"
proof -
  have "run_query world_interrupted SQL_NOVO =
     Some (Raise (BaseOnly ''KeyboardInterrupt''),
           [Print (Verificando ''db'' 5432),
            Connect ''db'' 5432, Print Inacessivel, Sleep 900,
            Connect ''db'' 5432, Print Inacessivel, Sleep 900,
            Connect ''db'' 5432, Print Acessivel,
            CreateEngine, Begin, ReadSql SQL_NOVO, Release])"
    using run_query_after_wait [of world_interrupted 2 SQL_NOVO]
    by (simp add: world_interrupted_def world_ok_def vpn_after_two_upto vpn_after_two_2 retries_2)
  then show ?thesis
    by (simp add: job_novo_def job_esteira_def janela_tuesday_10h except_Exception_def)
qed

lemma world_ok_conditions:
  "answered world_ok 2" "db_answers world_ok" "only_Exceptions world_ok"
  by (simp_all add: answered_def db_answers_def only_Exceptions_def world_ok_def
        vpn_after_two_upto vpn_after_two_2 vpn_after_two_def slack_accepts_def)

lemma world_db_hangs_conditions:
  "unreachable_upto (sock world_db_hangs) 2" "sock world_db_hangs 2 = Connected"
  "db_blocks world_db_hangs"
  by (simp_all add: db_blocks_def world_db_hangs_def world_ok_def
        vpn_after_two_upto vpn_after_two_2)

lemma superset_examples:
  "fst (get_superset_token superset_login_refused) = Raise (OSError ''HTTPError'')"
  "get_superset_token superset_chart_down = (Return (JStr ''jwt''), [HttpLogin])"
  "fst (get_chart_data superset_chart_down (JStr ''jwt'') 5840) = Raise (OSError ''ConnectionError'')"
  "get_superset_token superset_chart_is_list = (Return (JStr ''jwt''), [HttpLogin])"
  "get_chart_data superset_chart_is_list (JStr ''jwt'') 5840 =
     (Return (JList []), [HttpChart (JStr ''jwt'') 5840])"
  "processar (JList []) = Raise (PyException ''AttributeError'')"
  "chat superset_slack_down = Some (SlackApiError ''channel_not_found'')"
  by (simp_all add: get_superset_token_def get_chart_data_def processar_def
        superset_login_refused_def superset_chart_down_def superset_chart_is_list_def
        superset_slack_down_def)

theorem C1_job_boundary_witness:
  "job_novo \<in> set scheduled_jobs \<and>
   job_novo world_interrupted tuesday_10h =
     Some (Raise (BaseOnly ''KeyboardInterrupt''),
           [Print (Iniciando ''NOVO''),
            Print (Verificando ''db'' 5432),
            Connect ''db'' 5432, Print Inacessivel, Sleep 900,
            Connect ''db'' 5432, Print Inacessivel, Sleep 900,
            Connect ''db'' 5432, Print Acessivel,
            CreateEngine, Begin, ReadSql SQL_NOVO, Release]) \<and>
   \<not> is_Exception (BaseOnly ''KeyboardInterrupt'') \<and>
   answered world_ok 2 \<and> db_answers world_ok \<and> only_Exceptions world_ok \<and>
   job_novo world_ok tuesday_10h \<noteq> None \<and>
   (\<exists>tr oc. job_novo world_ok tuesday_10h = Some (Return (), tr) \<and> outcome tr = Some oc) \<and>
   dentro_da_janela_execucao tuesday_10h \<and>
   (\<forall>k. unreachable (sock world_vpn_down k)) \<and>
   job_novo world_vpn_down tuesday_10h = None \<and>
   job_resumo world_vpn_down tuesday_10h = None \<and>
   unreachable_upto (sock world_db_hangs) 2 \<and> sock world_db_hangs 2 = Connected \<and>
   db_blocks world_db_hangs \<and>
   job_novo world_db_hangs tuesday_10h = None \<and>
   job_resumo world_db_hangs tuesday_10h = None \<and>
   fst (get_superset_token superset_login_refused) = Raise (OSError ''HTTPError'') \<and>
   fst (main superset_login_refused 5840) = Raise (OSError ''HTTPError'') \<and>
   fst (get_chart_data superset_chart_down (JStr ''jwt'') 5840) =
     Raise (OSError ''ConnectionError'') \<and>
   fst (main superset_chart_down 5840) = Raise (OSError ''ConnectionError'') \<and>
   processar (JList []) = Raise (PyException ''AttributeError'') \<and>
   fst (main superset_chart_is_list 5840) = Raise (PyException ''AttributeError'') \<and>
   chat superset_slack_down = Some (SlackApiError ''channel_not_found'') \<and>
   fst (enviar_slack superset_slack_down NenhumDado) = Raise (SlackApiError ''channel_not_found'')"
proof -
  have j: "job_novo \<in> set scheduled_jobs" by (simp add: scheduled_jobs_def)
  note ok = world_ok_conditions
  note hang = world_db_hangs_conditions
  note down = unreachable_world_vpn_down
  note tue = janela_tuesday_10h
  note ex = superset_examples
  note intr = job_novo_world_interrupted
  note A = C1_job_boundary [where w = world_interrupted and agora = tuesday_10h,
      THEN conjunct1, THEN bspec, OF j]
  note B = C1_job_boundary [where w = world_ok and agora = tuesday_10h and n = 2,
      THEN conjunct1, THEN bspec, OF j]
  note C = C1_job_boundary [where w = world_vpn_down and agora = tuesday_10h]
  note D = C1_job_boundary [where w = world_db_hangs and agora = tuesday_10h and n = 2]
  have not_exc: "\<not> is_Exception (BaseOnly ''KeyboardInterrupt'')"
    using intr A [THEN conjunct1] by blast
  have returns: "job_novo world_ok tuesday_10h \<noteq> None"
    using ok B [THEN conjunct2, THEN conjunct2, THEN conjunct1] by blast
  have outcome: "\<exists>tr oc. job_novo world_ok tuesday_10h = Some (Return (), tr) \<and> outcome tr = Some oc"
    using ok B [THEN conjunct2, THEN conjunct2, THEN conjunct2, THEN conjunct1] by blast
  have waits: "job_novo world_vpn_down tuesday_10h = None"
    using tue down
      C [THEN conjunct1, THEN bspec, OF j, THEN conjunct2, THEN conjunct2, THEN conjunct2,
         THEN conjunct2, THEN conjunct1]
    by blast
  have waits_resumo: "job_resumo world_vpn_down tuesday_10h = None"
    using down C [THEN conjunct2, THEN conjunct1] by blast
  have blocks: "job_novo world_db_hangs tuesday_10h = None"
    using tue hang
      D [THEN conjunct1, THEN bspec, OF j, THEN conjunct2, THEN conjunct2, THEN conjunct2,
         THEN conjunct2, THEN conjunct2]
    by blast
  have blocks_resumo: "job_resumo world_db_hangs tuesday_10h = None"
    using hang D [THEN conjunct2, THEN conjunct2, THEN conjunct1] by blast
  note S1 = C1_job_boundary [where sw = superset_login_refused and chart_id = 5840
        and x = "OSError ''HTTPError''", THEN conjunct2, THEN conjunct2, THEN conjunct2]
  note S2 = C1_job_boundary [where sw = superset_chart_down and chart_id = 5840
        and x = "OSError ''ConnectionError''" and token = "JStr ''jwt''"
        and ?tr1.0 = "[HttpLogin]", THEN conjunct2, THEN conjunct2, THEN conjunct2]
  note S3 = C1_job_boundary [where sw = superset_chart_is_list and chart_id = 5840
        and x = "PyException ''AttributeError''" and token = "JStr ''jwt''"
        and ?tr1.0 = "[HttpLogin]" and chart_data = "JList []"
        and ?tr2.0 = "[HttpChart (JStr ''jwt'') 5840]", THEN conjunct2, THEN conjunct2, THEN conjunct2]
  note S4 = C1_job_boundary [where sw = superset_slack_down
        and x = "SlackApiError ''channel_not_found''" and texto = NenhumDado,
        THEN conjunct2, THEN conjunct2, THEN conjunct2]
  have m1: "fst (main superset_login_refused 5840) = Raise (OSError ''HTTPError'')"
    using ex(1) S1 [THEN conjunct1] by blast
  have m2: "fst (main superset_chart_down 5840) = Raise (OSError ''ConnectionError'')"
    using ex(2,3) S2 [THEN conjunct2, THEN conjunct1] by blast
  have m3: "fst (main superset_chart_is_list 5840) = Raise (PyException ''AttributeError'')"
    using ex(4,5,6) S3 [THEN conjunct2, THEN conjunct2, THEN conjunct1] by blast
  have m4: "fst (enviar_slack superset_slack_down NenhumDado) =
      Raise (SlackApiError ''channel_not_found'')"
    using ex(7) S4 [THEN conjunct2, THEN conjunct2, THEN conjunct2, THEN conjunct2] by blast
  show ?thesis
    using j intr not_exc ok returns outcome tue down waits waits_resumo hang blocks
      blocks_resumo ex(1) m1 ex(3) m2 ex(6) m3 ex(7) m4
    by (intro conjI allI) (assumption | rule down)+
qed

text \<open>
  Claim C1 as stated fails for the Superset script: when Slack refuses the message,
  \<open>main\<close> ends by raising the \<open>SlackApiError\<close>.
\<close>

theorem C1_superset_main_raises:
  "fst (main superset_slack_down 5840) = Raise (SlackApiError ''channel_not_found'')"
  by (simp add: main_superset_slack_down)

subsection \<open>The scheduler\<close>

lemma tick_fst:
  "fst (tick run now es) =
     map (\<lambda>e. (job_name e, run (job_name e)))
         (filter (\<lambda>e. due (recurrence e) (last_run e) now) es)"
  by (induction es) (simp_all add: split_def)

lemma tick_snd:
  "snd (tick run now es) =
     map (\<lambda>e. if due (recurrence e) (last_run e) now then e\<lparr>last_run := Some now\<rparr> else e) es"
  by (induction es) (simp_all add: split_def)

lemma not_due_again: "positive_rule r \<Longrightarrow> \<not> due r (Some now) now"
  by (cases r) simp_all

lemma registrations_positive:
  "(nm, r) \<in> set registrations \<Longrightarrow> positive_rule r"
  by (auto simp: registrations_def registrations_monitoramento_def registrations_resumo_def)

lemma second_tick_empty:
  assumes "\<forall>e \<in> set es. positive_rule (recurrence e)"
  shows "fst (tick run' now (snd (tick run now es))) = []"
proof -
  have "\<not> due (recurrence e') (last_run e') now"
    if "e' \<in> set (snd (tick run now es))" for e'
  proof -
    from that obtain e where e: "e \<in> set es"
      and e': "e' = (if due (recurrence e) (last_run e) now then e\<lparr>last_run := Some now\<rparr> else e)"
      by (auto simp: tick_snd)
    from assms e have "positive_rule (recurrence e)" by blast
    then show ?thesis using e' by (auto simp: not_due_again)
  qed
  then show ?thesis by (simp add: tick_fst filter_empty_conv)
qed

text \<open>
  Claim C3. For a registry that holds jobs registered by the two bots, in any state of
  their last runs, and for every instant: a job that a tick finds due is dispatched
  and its last run becomes that instant, whatever the outcome of the run (the outcome
  function is arbitrary); and a second tick at the same instant dispatches nothing.
\<close>

theorem C3_due_consumed_once:
  "set (map (\<lambda>e. (job_name e, recurrence e)) es) \<subseteq> set registrations \<longrightarrow>
     fst (tick run' now (snd (tick run now es))) = [] \<and>
     (\<forall>i<length es. due (recurrence (es ! i)) (last_run (es ! i)) now \<longrightarrow>
        (job_name (es ! i), run (job_name (es ! i))) \<in> set (fst (tick run now es)) \<and>
        last_run (snd (tick run now es) ! i) = Some now)"
proof (intro impI conjI allI)
  assume reg: "set (map (\<lambda>e. (job_name e, recurrence e)) es) \<subseteq> set registrations"
  have "\<forall>e \<in> set es. positive_rule (recurrence e)"
  proof
    fix e assume "e \<in> set es"
    with reg have "(job_name e, recurrence e) \<in> set registrations" by auto
    then show "positive_rule (recurrence e)" by (rule registrations_positive)
  qed
  then show "fst (tick run' now (snd (tick run now es))) = []" by (rule second_tick_empty)
next
  fix i assume "i < length es" and "due (recurrence (es ! i)) (last_run (es ! i)) now"
  then show "(job_name (es ! i), run (job_name (es ! i))) \<in> set (fst (tick run now es))"
    by (auto simp: tick_fst intro!: image_eqI [of _ _ "es ! i"])
next
  fix i assume "i < length es" and "due (recurrence (es ! i)) (last_run (es ! i)) now"
  then show "last_run (snd (tick run now es) ! i) = Some now"
    by (simp add: tick_snd)
qed

theorem C3_due_consumed_once_witness:
  "set (map (\<lambda>e. (job_name e, recurrence e)) (register registrations_monitoramento))
     \<subseteq> set registrations \<and>
   fst (tick (\<lambda>nm. Failed (PyException ''down'')) 2040 (register registrations_monitoramento)) =
     [(''NOVO'', Failed (PyException ''down'')), (''REFIN'', Failed (PyException ''down'')),
      (''PORTABILITY'', Failed (PyException ''down''))] \<and>
   map last_run (snd (tick (\<lambda>nm. Failed (PyException ''down'')) 2040
                        (register registrations_monitoramento))) =
     [Some 2040, Some 2040, Some 2040] \<and>
   fst (tick (\<lambda>nm. Succeeded) 2040
          (snd (tick (\<lambda>nm. Failed (PyException ''down'')) 2040
                  (register registrations_monitoramento)))) = []"
  using C3_due_consumed_once [of "register registrations_monitoramento"
      "\<lambda>nm. Succeeded" 2040 "\<lambda>nm. Failed (PyException ''down'')"]
  by (simp add: register_def registrations_monitoramento_def registrations_def)








text \<open>
  The scenario of the specification: NOVO every 30 minutes, first tick on a Tuesday at
  10:00 (minute 2040), then ticks at 10:29 and at 10:30.
\<close>

lemma scenario_novo:
  "tick run 2040 (register [(''NOVO'', Every 30)]) =
     ([(''NOVO'', run ''NOVO'')],
      [\<lparr>job_name = ''NOVO'', recurrence = Every 30, last_run = Some 2040\<rparr>]) \<and>
   fst (tick run 2069 [\<lparr>job_name = ''NOVO'', recurrence = Every 30, last_run = Some 2040\<rparr>]) = [] \<and>
   fst (tick run 2070 [\<lparr>job_name = ''NOVO'', recurrence = Every 30, last_run = Some 2040\<rparr>]) =
     [(''NOVO'', run ''NOVO'')]"
  by (simp add: register_def)

text \<open>An interval of zero, which no script registers, is due again at the same instant.\<close>

lemma every_zero_due_again:
  "fst (tick run 2040 (snd (tick run 2040 (register [(''J'', Every 0)])))) = [(''J'', run ''J'')]"
  by (simp add: register_def)

subsection \<open>The formatters\<close>

lemma nth_digit: "k < 10 \<Longrightarrow> is_digit (''0123456789'' ! k)"
  unfolding is_digit_def by (rule nth_mem) simp

lemma digits_are_digits: "\<forall>c \<in> set (digits n). is_digit c"
proof (induction n rule: digits.induct)
  case (1 n)
  show ?case
  proof (cases "n < 10")
    case True
    then show ?thesis by (subst digits.simps) (simp add: nth_digit)
  next
    case False
    with 1 show ?thesis by (subst digits.simps) (simp add: nth_digit)
  qed
qed

lemma two_digits_are_digits: "d < 100 \<Longrightarrow> \<forall>c \<in> set (two_digits d). is_digit c"
  by (simp add: two_digits_def nth_digit)

lemma replace_chain:
  "replace (CHR ''X'') (CHR ''.'') (replace (CHR ''.'') (CHR '','') (replace (CHR '','') (CHR ''X'') s))
   = map swap_seps s"
  by (simp add: replace_def swap_seps_def)

lemma swap_seps_digit: "is_digit c \<Longrightarrow> swap_seps c = c"
  by (auto simp: is_digit_def swap_seps_def)

lemma map_swap_digits: "\<forall>c \<in> set s. is_digit c \<Longrightarrow> map swap_seps s = s"
  by (induction s) (simp_all add: swap_seps_digit)

lemma map_group3:
  "\<forall>c \<in> set ds. h c = c \<Longrightarrow> map h (group3 sep ds) = group3 (h sep) ds"
  by (induction sep ds rule: group3.induct) simp_all

lemma map_thousands:
  "\<forall>c \<in> set ds. h c = c \<Longrightarrow> map h (thousands sep ds) = thousands (h sep) ds"
  by (simp add: thousands_def rev_map [symmetric] map_group3)

lemma swap_seps_sign: "map swap_seps (sign neg) = sign neg"
  by (simp add: sign_def swap_seps_def)

lemma format_brl_Finite:
  "format_brl (PyNumber (Finite neg m e)) = Return (''R$ '' @ brl_text neg (cents m e))"
proof -
  have d: "\<forall>c \<in> set (digits (cents m e div 100)). swap_seps c = c"
    using digits_are_digits by (simp add: swap_seps_digit)
  have t: "map swap_seps (two_digits (cents m e mod 100)) = two_digits (cents m e mod 100)"
    by (rule map_swap_digits) (rule two_digits_are_digits, simp)
  have "map swap_seps (''R$ '' @ format_2f True (Finite neg m e)) =
        ''R$ '' @ brl_text neg (cents m e)"
    using t by (simp add: brl_text_def swap_seps_sign map_thousands [OF d]) (simp add: swap_seps_def)
  then show ?thesis
    by (simp only: format_brl_def py_float.simps pyvalue.distinct res.case if_False replace_chain)
qed

lemma two_decimals_brl_text: "two_decimals (CHR '','') (brl_text neg c)"
  using two_digits_are_digits [of "c mod 100"]
  by (simp add: two_decimals_def brl_text_def two_digits_def)

lemma two_decimals_pct_text: "two_decimals (CHR ''.'') (butlast (pct_text neg c))"
  using two_digits_are_digits [of "c mod 100"]
  by (simp add: two_decimals_def pct_text_def two_digits_def butlast_append)

text \<open>
  Claim C10, as the code has it. Both formatters are total and never raise. Each
  returns \<open>"-"\<close> for \<open>None\<close> and for an object that \<open>float()\<close> rejects. For an
  object whose \<open>float\<close> is finite, \<open>format_brl\<close> returns \<open>"R$ "\<close> followed by
  the amount the Brazilian way (\<open>.\<close> between groups of three digits, \<open>,\<close> before
  two decimals), and \<open>format_pct\<close> the value with two decimals after a \<open>.\<close>,
  followed by \<open>%\<close>.
\<close>

theorem C10_formatters:
  "(\<exists>s. format_brl value = Return s) \<and> (\<exists>s. format_pct value = Return s) \<and>
   format_brl PyNone = Return ''-'' \<and> format_brl (PyOther c) = Return ''-'' \<and>
   format_pct PyNone = Return ''-'' \<and> format_pct (PyOther c) = Return ''-'' \<and>
   format_brl (PyNumber (Finite neg m e)) = Return (''R$ '' @ brl_text neg (cents m e)) \<and>
   two_decimals (CHR '','') (brl_text neg (cents m e)) \<and>
   format_pct (PyNumber (Finite neg m e)) = Return (pct_text neg (cents m e)) \<and>
   two_decimals (CHR ''.'') (butlast (pct_text neg (cents m e)))"
proof -
  have total_brl: "\<exists>s. format_brl value = Return s"
    by (cases "value") (simp_all add: format_brl_def)
  have total_pct: "\<exists>s. format_pct value = Return s"
    by (cases "value") (simp_all add: format_pct_def)
  have dash: "format_brl PyNone = Return ''-''" "format_brl (PyOther c) = Return ''-''"
    "format_pct PyNone = Return ''-''" "format_pct (PyOther c) = Return ''-''"
    by (simp_all add: format_brl_def format_pct_def)
  have pct: "format_pct (PyNumber (Finite neg m e)) = Return (pct_text neg (cents m e))"
    by (simp add: format_pct_def pct_text_def)
  show ?thesis
    using total_brl total_pct dash pct format_brl_Finite [of neg m e]
      two_decimals_brl_text [of neg "cents m e"] two_decimals_pct_text [of neg "cents m e"]
    by (intro conjI)
qed

text \<open>Two amounts: 1234.5, and the tie 1234567.875, which goes to the even cent.\<close>

lemma cents_2469: "cents 2469 (- 1) = 123450"
  by (simp add: cents_def Let_def)

lemma digits_1234: "digits 1234 = ''1234''"
  by (simp add: digits.simps)

lemma format_brl_example:
  "format_brl (PyNumber (Finite False 2469 (- 1))) = Return ''R$ 1.234,50''"
  by (simp add: format_brl_Finite brl_text_def cents_2469 digits_1234 thousands_def
        two_digits_def sign_def)

lemma format_brl_example_tie:
  "format_brl (PyNumber (Finite False 9876543 (- 3))) = Return ''R$ 1.234.567,88''"
proof -
  have c: "cents 9876543 (- 3) = 123456788"
    by (simp add: cents_def Let_def)
  have d: "digits 1234567 = ''1234567''"
    by (simp add: digits.simps)
  show ?thesis
    by (simp add: format_brl_Finite brl_text_def c d thousands_def two_digits_def sign_def)
qed

text \<open>
  Claim C10 as stated fails where \<open>float()\<close> accepts the input and gives
  \<open>nan\<close> (pandas' value for a SQL \<open>NULL\<close> in a numeric column): the results are
  \<open>"R$ nan"\<close> and \<open>"nan%"\<close>, which have no decimals.
\<close>

theorem C10_nan_not_two_decimals:
  "format_brl (PyNumber NaN) = Return ''R$ nan'' \<and>
   \<not> two_decimals (CHR '','') ''R$ nan'' \<and>
   format_pct (PyNumber NaN) = Return ''nan%'' \<and>
   \<not> two_decimals (CHR ''.'') (butlast ''nan%'')"
  by (simp add: format_brl_def format_pct_def replace_def two_decimals_def is_digit_def)


end
